theory Spec2Isabelle
  imports Complex_Main "HOL-Library.AList"
begin

section \<open>Values of the program\<close>

text \<open>
  The discovery pipeline moves JSON between a search vendor, a key-value store and a CRM.
  Every Python value the code handles at run time is a JSON value (the task arguments are
  JSON-serialised by the task queue, vendor and CRM bodies are parsed JSON), so one
  datatype stands for all of them. A Python \<open>dict\<close> keeps insertion order: it is an
  association list with distinct keys, read with \<open>map_of\<close> and written with
  \<open>AList.update\<close> (replace in place, or append). Strings are treated as ASCII text.
  A float is represented by the real number it denotes.
\<close>

datatype json =
    JNull
  | JBool bool
  | JInt int
  | JFloat real
  | JStr string
  | JList "json list"
  | JDict "(string \<times> json) list"

type_synonym dict = "(string \<times> json) list"

text \<open>Exceptions are values; \<open>error_text\<close> is Python's \<open>str(e)\<close>.\<close>

datatype py_error =
    Exception string
  | ValueError string
  | TypeError string
  | AttributeError string
  | KeyError string

fun error_text :: "py_error \<Rightarrow> string" where
  "error_text (Exception m) = m"
| "error_text (ValueError m) = m"
| "error_text (TypeError m) = m"
| "error_text (AttributeError m) = m"
| "error_text (KeyError k) = [CHR 0x27] @ k @ [CHR 0x27]"

subsection \<open>Python's built-in operations on these values\<close>

text \<open>Truthiness, as tested by \<open>if v\<close>, \<open>not v\<close>, \<open>a or b\<close> and \<open>a and b\<close>.\<close>

fun py_truthy :: "json \<Rightarrow> bool" where
  "py_truthy JNull = False"
| "py_truthy (JBool b) = b"
| "py_truthy (JInt i) = (i \<noteq> 0)"
| "py_truthy (JFloat f) = (f \<noteq> 0)"
| "py_truthy (JStr s) = (s \<noteq> [])"
| "py_truthy (JList xs) = (xs \<noteq> [])"
| "py_truthy (JDict d) = (d \<noteq> [])"

definition py_or :: "json \<Rightarrow> json \<Rightarrow> json" where
  "py_or a b = (if py_truthy a then a else b)"

text \<open>\<open>v.get(key, default)\<close>: only a dict has the method.\<close>

fun py_get :: "json \<Rightarrow> string \<Rightarrow> json \<Rightarrow> py_error + json" where
  "py_get (JDict d) k dflt = Inr (case map_of d k of Some v \<Rightarrow> v | None \<Rightarrow> dflt)"
| "py_get v k dflt = Inl (AttributeError ''object has no attribute get'')"

text \<open>\<open>d.get(key, default)\<close> and \<open>d.get(key)\<close> on a value known to be a dict.\<close>

definition dict_get :: "dict \<Rightarrow> string \<Rightarrow> json \<Rightarrow> json" where
  "dict_get d k dflt = (case map_of d k of Some v \<Rightarrow> v | None \<Rightarrow> dflt)"

text \<open>\<open>len(v)\<close>.\<close>

fun py_len :: "json \<Rightarrow> py_error + nat" where
  "py_len (JList xs) = Inr (length xs)"
| "py_len (JStr s) = Inr (length s)"
| "py_len (JDict d) = Inr (length d)"
| "py_len v = Inl (TypeError ''object has no len()'')"

text \<open>
  The elements a \<open>for\<close> loop (or \<open>list.extend\<close>) draws from a value: the items of a list,
  the characters of a string, the keys of a dict; anything else is not iterable.
\<close>

fun py_iter :: "json \<Rightarrow> py_error + json list" where
  "py_iter (JList xs) = Inr xs"
| "py_iter (JStr s) = Inr (map (\<lambda>c. JStr [c]) s)"
| "py_iter (JDict d) = Inr (map (\<lambda>kv. JStr (fst kv)) d)"
| "py_iter v = Inl (TypeError ''object is not iterable'')"

text \<open>
  Comparing an int with a JSON value (\<open>n >= v\<close>, \<open>n < v\<close>): defined against numbers, booleans
  counting as 0 and 1; a TypeError against anything else.
\<close>

fun py_number :: "json \<Rightarrow> real option" where
  "py_number (JInt i) = Some (real_of_int i)"
| "py_number (JFloat f) = Some f"
| "py_number (JBool b) = Some (if b then 1 else 0)"
| "py_number v = None"

definition py_int_ge :: "int \<Rightarrow> json \<Rightarrow> py_error + bool" where
  "py_int_ge n v =
     (case py_number v of
        None \<Rightarrow> Inl (TypeError ''>= not supported between these instances'')
      | Some x \<Rightarrow> Inr (real_of_int n \<ge> x))"

text \<open>\<open>min(v, n)\<close> with an int second argument: \<open>n\<close> replaces \<open>v\<close> only when \<open>n < v\<close>.\<close>

definition py_min_int :: "json \<Rightarrow> int \<Rightarrow> py_error + json" where
  "py_min_int v n =
     (case py_number v of
        None \<Rightarrow> Inl (TypeError ''< not supported between these instances'')
      | Some x \<Rightarrow> Inr (if real_of_int n < x then JInt n else v))"

subsection \<open>Strings\<close>

definition py_isspace :: "char \<Rightarrow> bool" where
  "py_isspace c \<longleftrightarrow>
     c \<in> set [CHR 0x09, CHR 0x0A, CHR 0x0B, CHR 0x0C, CHR 0x0D,
               CHR 0x1C, CHR 0x1D, CHR 0x1E, CHR 0x1F, CHR 0x20]"

definition py_strip :: "string \<Rightarrow> string" where
  "py_strip s = rev (dropWhile py_isspace (rev (dropWhile py_isspace s)))"

definition lower_char :: "char \<Rightarrow> char" where
  "lower_char c =
     (case map_of (zip ''ABCDEFGHIJKLMNOPQRSTUVWXYZ'' ''abcdefghijklmnopqrstuvwxyz'') c of
        Some l \<Rightarrow> l | None \<Rightarrow> c)"

definition upper_char :: "char \<Rightarrow> char" where
  "upper_char c =
     (case map_of (zip ''abcdefghijklmnopqrstuvwxyz'' ''ABCDEFGHIJKLMNOPQRSTUVWXYZ'') c of
        Some u \<Rightarrow> u | None \<Rightarrow> c)"

definition py_lower :: "string \<Rightarrow> string" where
  "py_lower s = map lower_char s"

definition py_capitalize :: "string \<Rightarrow> string" where
  "py_capitalize s = (case s of [] \<Rightarrow> [] | c # cs \<Rightarrow> upper_char c # map lower_char cs)"

text \<open>
  \<open>s.split()\<close>: the maximal runs of non-whitespace characters. \<open>cur\<close> holds the run being
  read, reversed.
\<close>

fun split_run :: "string \<Rightarrow> string \<Rightarrow> string list" where
  "split_run cur [] = (if cur = [] then [] else [rev cur])"
| "split_run cur (c # cs) =
     (if py_isspace c then (if cur = [] then split_run [] cs else rev cur # split_run [] cs)
      else split_run (c # cur) cs)"

definition py_split :: "string \<Rightarrow> string list" where
  "py_split s = split_run [] s"

fun py_join :: "string \<Rightarrow> string list \<Rightarrow> string" where
  "py_join sep [] = []"
| "py_join sep [x] = x"
| "py_join sep (x # y # ys) = x @ sep @ py_join sep (y # ys)"

definition py_endswith :: "string \<Rightarrow> string \<Rightarrow> bool" where
  "py_endswith s suf \<longleftrightarrow>
     length suf \<le> length s \<and> drop (length s - length suf) s = suf"

text \<open>\<open>v.strip()\<close> and \<open>v.lower()\<close> on an arbitrary value: only a string has the methods.\<close>

fun py_strip_method :: "json \<Rightarrow> py_error + string" where
  "py_strip_method (JStr s) = Inr (py_strip s)"
| "py_strip_method v = Inl (AttributeError ''object has no attribute strip'')"

fun py_lower_method :: "json \<Rightarrow> py_error + string" where
  "py_lower_method (JStr s) = Inr (py_lower s)"
| "py_lower_method v = Inl (AttributeError ''object has no attribute lower'')"

section \<open>ResultStandardizer (discovery\_module.py)\<close>

subsection \<open>\_extract\_contact\_details\<close>

text \<open>
  One pass of the loop body of \<open>InsightIQDiscovery._extract_contact_details\<close> in
  discovery\_module.py: the type is lower-cased, an entry with an empty type or a falsy value
  is ignored, email and phone keep their name, any other type is stored under
  \<open>type_url\<close>. The store is an unconditional assignment.
\<close>

definition contact_key :: "string \<Rightarrow> string" where
  "contact_key contact_type =
     (if contact_type \<in> set [''email'', ''phone''] then contact_type
      else contact_type @ ''_url'')"

definition extract_step :: "dict \<Rightarrow> json \<Rightarrow> py_error + dict" where
  "extract_step contacts detail =
     (case py_get detail ''type'' (JStr '''') of
        Inl e \<Rightarrow> Inl e
      | Inr t \<Rightarrow>
          (case py_lower_method t of
             Inl e \<Rightarrow> Inl e
           | Inr contact_type \<Rightarrow>
               (case py_get detail ''value'' (JStr '''') of
                  Inl e \<Rightarrow> Inl e
                | Inr contact_value \<Rightarrow>
                    if contact_type \<noteq> [] \<and> py_truthy contact_value
                    then Inr (AList.update (contact_key contact_type) contact_value contacts)
                    else Inr contacts)))"

fun extract_loop :: "dict \<Rightarrow> json list \<Rightarrow> py_error + dict" where
  "extract_loop contacts [] = Inr contacts"
| "extract_loop contacts (detail # rest) =
     (case extract_step contacts detail of
        Inl e \<Rightarrow> Inl e
      | Inr contacts' \<Rightarrow> extract_loop contacts' rest)"

definition extract_contact_details :: "json \<Rightarrow> py_error + dict" where
  "extract_contact_details contact_details =
     (case py_iter contact_details of
        Inl e \<Rightarrow> Inl e
      | Inr details \<Rightarrow> extract_loop [] details)"

text \<open>
  The same method in app/services/insightiq.py: the key is the lower-cased type itself, and
  the assignment is guarded by \<open>contact_type not in contacts\<close>.
\<close>

definition extract_step_svc :: "dict \<Rightarrow> json \<Rightarrow> py_error + dict" where
  "extract_step_svc contacts detail =
     (case py_get detail ''type'' (JStr '''') of
        Inl e \<Rightarrow> Inl e
      | Inr t \<Rightarrow>
          (case py_lower_method t of
             Inl e \<Rightarrow> Inl e
           | Inr contact_type \<Rightarrow>
               (case py_get detail ''value'' (JStr '''') of
                  Inl e \<Rightarrow> Inl e
                | Inr contact_value \<Rightarrow>
                    if contact_type \<noteq> [] \<and> py_truthy contact_value
                       \<and> map_of contacts contact_type = None
                    then Inr (AList.update contact_type contact_value contacts)
                    else Inr contacts)))"

fun extract_loop_svc :: "dict \<Rightarrow> json list \<Rightarrow> py_error + dict" where
  "extract_loop_svc contacts [] = Inr contacts"
| "extract_loop_svc contacts (detail # rest) =
     (case extract_step_svc contacts detail of
        Inl e \<Rightarrow> Inl e
      | Inr contacts' \<Rightarrow> extract_loop_svc contacts' rest)"

definition extract_contact_details_svc :: "json \<Rightarrow> py_error + dict" where
  "extract_contact_details_svc contact_details =
     (case py_iter contact_details of
        Inl e \<Rightarrow> Inl e
      | Inr details \<Rightarrow> extract_loop_svc [] details)"

subsection \<open>\_standardize\_results\<close>

text \<open>
  The name is split on whitespace and each token capitalised; a falsy name gives no tokens,
  a truthy value that is not a string has no \<open>split\<close> method.
\<close>

definition name_parts_of :: "json \<Rightarrow> py_error + string list" where
  "name_parts_of full_name =
     (if py_truthy full_name
      then (case full_name of
              JStr s \<Rightarrow> Inr (map py_capitalize (py_split s))
            | _ \<Rightarrow> Inl (AttributeError ''object has no attribute split''))
      else Inr [])"

definition first_name_of :: "string list \<Rightarrow> string" where
  "first_name_of name_parts = (case name_parts of [] \<Rightarrow> '''' | n # _ \<Rightarrow> n)"

definition last_name_of :: "string list \<Rightarrow> string" where
  "last_name_of name_parts =
     (if length name_parts > 1 then py_join '' '' (tl name_parts) else '''')"

text \<open>Line 275: \<open>profile.get('follower_count') or profile.get('subscriber_count', 0)\<close>.\<close>

definition follower_count_of :: "dict \<Rightarrow> json" where
  "follower_count_of p =
     py_or (dict_get p ''follower_count'' JNull) (dict_get p ''subscriber_count'' (JInt 0))"

text \<open>
  The body of the \<open>try\<close> block for one raw record. The first statement calls
  \<open>profile.get\<close>, so a record that is not a dict raises at once; the same holds for the
  location when \<open>location.get\<close> is reached. The dict literal lists sixteen keys and then
  unpacks the remaining contact entries over them.
\<close>

definition standardize_profile :: "string \<Rightarrow> json \<Rightarrow> py_error + dict" where
  "standardize_profile platform profile =
     (case profile of
        JDict p \<Rightarrow>
          (case extract_contact_details (dict_get p ''contact_details'' (JList [])) of
             Inl e \<Rightarrow> Inl e
           | Inr contact_details \<Rightarrow>
               (let full_name = dict_get p ''full_name'' (JStr '''') in
                case name_parts_of full_name of
                  Inl e \<Rightarrow> Inl e
                | Inr name_parts \<Rightarrow>
                    (case dict_get p ''creator_location'' (JDict []) of
                       JDict location \<Rightarrow>
                         Inr (fold (\<lambda>kv. AList.update (fst kv) (snd kv))
                                (filter (\<lambda>kv. fst kv \<notin> set [''email'', ''phone''])
                                   contact_details)
                                [(''profile_url'', dict_get p ''url'' (JStr '''')),
                                 (''handle'', dict_get p ''platform_username'' (JStr '''')),
                                 (''display_name'', full_name),
                                 (''first_name'', JStr (first_name_of name_parts)),
                                 (''last_name'', JStr (last_name_of name_parts)),
                                 (''platform'', JStr platform),
                                 (''follower_count'', follower_count_of p),
                                 (''engagement_rate'', dict_get p ''engagement_rate'' (JInt 0)),
                                 (''bio'', dict_get p ''bio'' (JStr '''')),
                                 (''email'', dict_get contact_details ''email'' JNull),
                                 (''phone'', dict_get contact_details ''phone'' JNull),
                                 (''city'', dict_get location ''city'' JNull),
                                 (''state'', dict_get location ''state'' JNull),
                                 (''country'', dict_get location ''country'' JNull),
                                 (''audience_credibility'',
                                    dict_get p ''audience_credibility_category'' JNull),
                                 (''last_post_date'',
                                    dict_get p ''last_post_timestamp'' JNull)])
                     | _ \<Rightarrow> Inl (AttributeError ''object has no attribute get''))))
      | _ \<Rightarrow> Inl (AttributeError ''object has no attribute get''))"

text \<open>
  The loop over the raw results: a record whose processing raises is logged and skipped
  (\<open>except Exception: ... continue\<close>), any other is appended.
\<close>

fun standardize_results :: "string \<Rightarrow> json list \<Rightarrow> dict list" where
  "standardize_results platform [] = []"
| "standardize_results platform (profile # raw_results) =
     (case standardize_profile platform profile of
        Inl e \<Rightarrow> standardize_results platform raw_results
      | Inr standardized_profile \<Rightarrow>
          standardized_profile # standardize_results platform raw_results)"

text \<open>
  The variant in app/services/insightiq.py: other field names, fixed funnel tags, and the
  follower count read by \<open>profile.get('follower_count', 0)\<close> (line 246).
\<close>

definition instagram_followers_of :: "dict \<Rightarrow> json" where
  "instagram_followers_of p = dict_get p ''follower_count'' (JInt 0)"

definition standardize_profile_svc :: "json \<Rightarrow> py_error + dict" where
  "standardize_profile_svc profile =
     (case profile of
        JDict p \<Rightarrow>
          (case extract_contact_details_svc (dict_get p ''contact_details'' (JList [])) of
             Inl e \<Rightarrow> Inl e
           | Inr contact_details \<Rightarrow>
               (case dict_get p ''location'' (JDict []) of
                  JDict location \<Rightarrow>
                    Inr [(''first_and_last_name'', dict_get p ''full_name'' (JStr '''')),
                         (''flagship_social_platform_handle'',
                            dict_get p ''platform_username'' (JStr '''')),
                         (''instagram_handle'', dict_get p ''url'' (JStr '''')),
                         (''instagram_bio'', dict_get p ''introduction'' (JStr '''')),
                         (''instagram_followers'', instagram_followers_of p),
                         (''average_engagement'', dict_get p ''engagement_rate'' (JInt 0)),
                         (''email'', dict_get contact_details ''email'' JNull),
                         (''phone'', dict_get contact_details ''phone'' JNull),
                         (''tiktok_handle'', dict_get contact_details ''tiktok'' JNull),
                         (''youtube_profile_link'', dict_get contact_details ''youtube'' JNull),
                         (''facebook_profile_link'',
                            dict_get contact_details ''facebook'' JNull),
                         (''patreon_link'', dict_get contact_details ''patreon'' JNull),
                         (''pinterest_profile_link'',
                            dict_get contact_details ''pinterest'' JNull),
                         (''city'', dict_get location ''city'' JNull),
                         (''state'', dict_get location ''state'' JNull),
                         (''country'', dict_get location ''country'' JNull),
                         (''flagship_social_platform'', JStr ''instagram''),
                         (''channel'', JStr ''Outbound''),
                         (''channel_host_prospected'', JStr ''Phyllo''),
                         (''funnel'', JStr ''Creator''),
                         (''enrichment_status'', JStr ''pending'')]
                | _ \<Rightarrow> Inl (AttributeError ''object has no attribute get'')))
      | _ \<Rightarrow> Inl (AttributeError ''object has no attribute get''))"

fun standardize_results_svc :: "json list \<Rightarrow> dict list" where
  "standardize_results_svc [] = []"
| "standardize_results_svc (profile # raw_results) =
     (case standardize_profile_svc profile of
        Inl e \<Rightarrow> standardize_results_svc raw_results
      | Inr standardized_profile \<Rightarrow> standardized_profile # standardize_results_svc raw_results)"

section \<open>The outside world\<close>

text \<open>
  What an HTTP call gives back: a transport failure (\<open>requests.exceptions.RequestException\<close>,
  with its message), or a response with its status code, its text, and what
  \<open>response.json()\<close> yields: the parsed body, or the message of the decoding error, which
  \<open>requests\<close> raises as a \<open>RequestException\<close>.
\<close>

datatype http_outcome =
    RequestException string
  | Response nat string "string + json"

text \<open>
  The effects of the program, in the order they happen: a write to the status store
  (key, TTL in seconds, record), the submission of a search job (request parameters), one
  poll of its results (job id, offset, limit), one bulk-create call to the CRM (the batch),
  and a sleep (milliseconds).
\<close>

datatype event =
    RedisSetex string nat dict
  | VendorSubmit dict
  | VendorPoll json nat nat
  | CrmBatchCreate "json list"
  | Sleep nat

section \<open>SearchJobClient (discovery\_module.py)\<close>

subsection \<open>Request parameters\<close>

definition FIXED_PARAMS :: dict where
  "FIXED_PARAMS =
     [(''specific_contact_details'',
         JList [JDict [(''type'', JStr ''EMAIL''), (''preference'', JStr ''MUST_HAVE'')]]),
      (''creator_language'', JDict [(''code'', JStr ''en'')]),
      (''creator_locations'', JList [JStr ''cb8c4bd2-7661-4761-971a-c27322e2f209'']),
      (''audience_locations'',
         JList [JDict [(''location_id'', JStr ''cb8c4bd2-7661-4761-971a-c27322e2f209''),
                       (''percentage_value'', JInt 30),
                       (''operator'', JStr ''GT'')]]),
      (''sort_by'', JDict [(''field'', JStr ''FOLLOWER_COUNT''), (''order'', JStr ''DESCENDING'')]),
      (''audience_credibility_category'',
         JList [JStr ''EXCELLENT'', JStr ''HIGH'', JStr ''NORMAL''])]"

definition PLATFORM_CONFIGS :: "(string \<times> dict) list" where
  "PLATFORM_CONFIGS =
     [(''instagram'', [(''work_platform_id'', JStr ''9bb8913b-ddd9-430b-a66a-d74d846e6c66''),
                       (''network_name'', JStr ''instagram'')]),
      (''youtube'', [(''work_platform_id'', JStr ''14d9ddf5-51c6-415e-bde6-f8ed36ad7054''),
                     (''network_name'', JStr ''youtube'')]),
      (''tiktok'', [(''work_platform_id'', JStr ''de55aeec-0dc8-4119-bf90-16b3d1f0c987''),
                    (''network_name'', JStr ''tiktok'')]),
      (''facebook'', [(''work_platform_id'', JStr ''ad2fec62-2987-40a0-89fb-23485972598c''),
                      (''network_name'', JStr ''facebook'')])]"

text \<open>\<open>user_filters or {}\<close>.\<close>

definition filters_or_empty :: "json \<Rightarrow> json" where
  "filters_or_empty user_filters = py_or user_filters (JDict [])"

text \<open>
  Lines 124-133 of \<open>search_profiles\<close>: a lookalike enters the parameters only when the type is
  \<open>creator\<close> or \<open>audience\<close> and the stripped handle is not empty.
\<close>

definition add_lookalike :: "json \<Rightarrow> string \<Rightarrow> dict \<Rightarrow> dict" where
  "add_lookalike lookalike_type lookalike_username parameters =
     (if lookalike_type = JStr ''creator'' \<and> lookalike_username \<noteq> []
      then AList.update ''creator_lookalikes'' (JStr lookalike_username) parameters
      else if lookalike_type = JStr ''audience'' \<and> lookalike_username \<noteq> []
      then AList.update ''audience_lookalikes'' (JStr lookalike_username) parameters
      else parameters)"

text \<open>Lines 136-142: an optional filter is copied when it is present and truthy.\<close>

definition add_optional :: "string \<Rightarrow> dict \<Rightarrow> dict \<Rightarrow> dict" where
  "add_optional name user_filters parameters =
     (case map_of user_filters name of
        Some v \<Rightarrow> if py_truthy v then AList.update name v parameters else parameters
      | None \<Rightarrow> parameters)"

text \<open>
  Lines 95-142 of \<open>search_profiles\<close>, everything before the first network call. The first use
  of the filters is \<open>user_filters.get\<close>, which only a dict has.
\<close>

definition build_parameters :: "string \<Rightarrow> json \<Rightarrow> py_error + dict" where
  "build_parameters platform user_filters0 =
     (case map_of PLATFORM_CONFIGS platform of
        None \<Rightarrow> Inl (ValueError (''Unsupported platform: '' @ platform))
      | Some platform_config \<Rightarrow>
          (case filters_or_empty user_filters0 of
             JDict user_filters \<Rightarrow>
               (let parameters = AList.update ''work_platform_id''
                      (dict_get platform_config ''work_platform_id'' JNull) FIXED_PARAMS
                in case py_min_int (dict_get user_filters ''max_results'' (JInt 500)) 4000 of
                  Inl e \<Rightarrow> Inl e
                | Inr max_results \<Rightarrow>
                    (let parameters = AList.update ''max_results'' max_results parameters
                     in case dict_get user_filters ''follower_count'' (JDict []) of
                       JDict follower_filter \<Rightarrow>
                         (let range = JDict [(''min'', dict_get follower_filter ''min'' (JInt 20000)),
                                             (''max'', dict_get follower_filter ''max'' (JInt 900000))];
                              parameters =
                                (if platform = ''youtube''
                                 then AList.update ''subscriber_count'' range parameters
                                 else AList.update ''follower_count'' range parameters);
                              lookalike_type = dict_get user_filters ''lookalike_type'' JNull
                          in case py_strip_method
                                    (dict_get user_filters ''lookalike_username'' (JStr '''')) of
                            Inl e \<Rightarrow> Inl e
                          | Inr lookalike_username \<Rightarrow>
                              Inr (add_optional ''hashtags'' user_filters
                                    (add_optional ''creator_interests'' user_filters
                                      (add_lookalike lookalike_type lookalike_username
                                         parameters))))
                     | _ \<Rightarrow> Inl (AttributeError ''object has no attribute get'')))
           | _ \<Rightarrow> Inl (AttributeError ''object has no attribute get'')))"

subsection \<open>\_start\_job\<close>

text \<open>
  \<open>_start_job\<close> of discovery\_module.py. The single \<open>requests.post\<close> is the one
  \<open>VendorSubmit\<close> event; \<open>outcome\<close> is what that call gave back. Only status 200 is
  accepted here. The exceptions raised inside the \<open>try\<close> are plain \<open>Exception\<close>s, which the
  \<open>except RequestException\<close> clause lets through.
\<close>

definition start_job :: "http_outcome \<Rightarrow> dict \<Rightarrow> (py_error + json) \<times> event list" where
  "start_job outcome parameters =
     ((case outcome of
         RequestException m \<Rightarrow> Inl (Exception (''Failed to connect to InsightIQ API: '' @ m))
       | Response status_code text body \<Rightarrow>
           if status_code \<noteq> 200 then Inl (Exception (''Failed to start job: '' @ text))
           else (case body of
                   Inl m \<Rightarrow> Inl (Exception (''Failed to connect to InsightIQ API: '' @ m))
                 | Inr b \<Rightarrow>
                     (case py_get b ''id'' JNull of
                        Inl e \<Rightarrow> Inl e
                      | Inr job_id \<Rightarrow>
                          if \<not> py_truthy job_id
                          then Inl (Exception ''No job ID returned from API'')
                          else Inr job_id))),
      [VendorSubmit parameters])"

text \<open>\<open>_start_job\<close> of app/services/insightiq.py: status 200 and 202 are accepted.\<close>

definition start_job_svc :: "http_outcome \<Rightarrow> dict \<Rightarrow> (py_error + json) \<times> event list" where
  "start_job_svc outcome parameters =
     ((case outcome of
         RequestException m \<Rightarrow> Inl (Exception (''Failed to connect to InsightIQ API: '' @ m))
       | Response status_code text body \<Rightarrow>
           if status_code \<notin> set [200, 202]
           then Inl (Exception (''Failed to start job: '' @ text))
           else (case body of
                   Inl m \<Rightarrow> Inl (Exception (''Failed to connect to InsightIQ API: '' @ m))
                 | Inr b \<Rightarrow>
                     (case py_get b ''id'' JNull of
                        Inl e \<Rightarrow> Inl e
                      | Inr job_id \<Rightarrow>
                          if \<not> py_truthy job_id
                          then Inl (Exception ''No job ID returned from API'')
                          else Inr job_id))),
      [VendorSubmit parameters])"

subsection \<open>\_fetch\_results\<close>

text \<open>
  The text an f-string interpolates for a value: exact for a string, \<open>None\<close> and the
  booleans. Numbers and containers are shown by their kind only; no statement below reads
  that text.
\<close>

fun py_str :: "json \<Rightarrow> string" where
  "py_str (JStr s) = s"
| "py_str JNull = ''None''"
| "py_str (JBool b) = (if b then ''True'' else ''False'')"
| "py_str (JInt i) = ''<int>''"
| "py_str (JFloat f) = ''<float>''"
| "py_str (JList xs) = ''<list>''"
| "py_str (JDict d) = ''<dict>''"

text \<open>
  What one parsed page is taken for (lines 213-230): still processing, or a batch with the
  elements \<open>all_results.extend\<close> appends and the reported total. A FAILED status raises with
  the vendor's message.
\<close>

datatype page = StillProcessing | Batch "json list" json

definition read_page :: "json \<Rightarrow> py_error + page" where
  "read_page data =
     (case data of
        JDict d \<Rightarrow>
          if dict_get d ''status'' JNull = JStr ''IN_PROGRESS'' then Inr StillProcessing
          else if dict_get d ''status'' JNull = JStr ''FAILED''
          then Inl (Exception (''Job failed: ''
                      @ py_str (dict_get d ''error'' (JStr ''Unknown error''))))
          else (case py_iter (dict_get d ''data'' (JList [])) of
                  Inl e \<Rightarrow> Inl e
                | Inr batch_results \<Rightarrow>
                    (case py_get (dict_get d ''metadata'' (JDict [])) ''total_results'' (JInt 0) of
                       Inl e \<Rightarrow> Inl e
                     | Inr total_results \<Rightarrow> Inr (Batch batch_results total_results)))
      | _ \<Rightarrow> Inl (AttributeError ''object has no attribute get''))"

text \<open>
  Line 235: \<open>offset + limit >= total_results or len(batch_results) == 0\<close>, with limit 100.
  The comparison is evaluated first and raises on a total that is not a number.
\<close>

definition got_all :: "nat \<Rightarrow> json list \<Rightarrow> json \<Rightarrow> py_error + bool" where
  "got_all offset batch_results total_results =
     (case py_int_ge (int offset + 100) total_results of
        Inl e \<Rightarrow> Inl e
      | Inr reached \<Rightarrow> Inr (reached \<or> batch_results = []))"

text \<open>How one pass of the \<open>try\<close> block leaves the loop body.\<close>

datatype step =
    Raise py_error
  | Wait
  | NextPage "json list"
  | Done "json list"

definition poll_step :: "http_outcome \<Rightarrow> nat \<Rightarrow> json list \<Rightarrow> step" where
  "poll_step outcome offset all_results =
     (case outcome of
        RequestException m \<Rightarrow> Raise (Exception (''Failed to fetch results: '' @ m))
      | Response status_code text body \<Rightarrow>
          if status_code \<noteq> 200 then Raise (Exception (''Failed to fetch results: '' @ text))
          else (case body of
                  Inl m \<Rightarrow> Raise (Exception (''Failed to fetch results: '' @ m))
                | Inr data \<Rightarrow>
                    (case read_page data of
                       Inl e \<Rightarrow> Raise e
                     | Inr StillProcessing \<Rightarrow> Wait
                     | Inr (Batch batch_results total_results) \<Rightarrow>
                         (case got_all offset batch_results total_results of
                            Inl e \<Rightarrow> Raise e
                          | Inr True \<Rightarrow> Done (all_results @ batch_results)
                          | Inr False \<Rightarrow> NextPage (all_results @ batch_results)))))"

text \<open>
  The polling loop. The environment is a script: for each pass, the elapsed time the loop
  computes at its top (\<open>time.time() - start_time\<close>, in seconds) and what the GET of that pass
  gives back. The loop can run for ever, so its result is an option: \<open>None\<close> when the script
  ends with the loop still polling. The events of the passes made are returned either way.
\<close>

fun fetch_loop ::
  "json \<Rightarrow> (real \<times> http_outcome) list \<Rightarrow> nat \<Rightarrow> json list
     \<Rightarrow> (py_error + json list) option \<times> event list" where
  "fetch_loop job_id [] offset all_results = (None, [])"
| "fetch_loop job_id ((elapsed, outcome) # script) offset all_results =
     (if elapsed > 600 then (Some (Inl (Exception ''Job timeout after 600 seconds'')), [])
      else (case poll_step outcome offset all_results of
              Raise e \<Rightarrow> (Some (Inl e), [VendorPoll job_id offset 100])
            | Wait \<Rightarrow>
                (case fetch_loop job_id script offset all_results of
                   (result, events) \<Rightarrow>
                     (result, VendorPoll job_id offset 100 # Sleep 60000 # events))
            | NextPage all_results' \<Rightarrow>
                (case fetch_loop job_id script (offset + 100) all_results' of
                   (result, events) \<Rightarrow> (result, VendorPoll job_id offset 100 # events))
            | Done all_results' \<Rightarrow> (Some (Inr all_results'), [VendorPoll job_id offset 100])))"

definition fetch_results ::
  "json \<Rightarrow> (real \<times> http_outcome) list \<Rightarrow> (py_error + json list) option \<times> event list" where
  "fetch_results job_id script = fetch_loop job_id script 0 []"

subsection \<open>search\_profiles\<close>

definition search_profiles ::
  "http_outcome \<Rightarrow> (real \<times> http_outcome) list \<Rightarrow> string \<Rightarrow> json
     \<Rightarrow> (py_error + dict list) option \<times> event list" where
  "search_profiles submit_response poll_script platform user_filters =
     (case build_parameters platform user_filters of
        Inl e \<Rightarrow> (Some (Inl e), [])
      | Inr parameters \<Rightarrow>
          (case start_job submit_response parameters of
             (Inl e, submitted) \<Rightarrow> (Some (Inl e), submitted)
           | (Inr job_id, submitted) \<Rightarrow>
               (case fetch_results job_id poll_script of
                  (None, polled) \<Rightarrow> (None, submitted @ polled)
                | (Some (Inl e), polled) \<Rightarrow> (Some (Inl e), submitted @ polled)
                | (Some (Inr raw_results), polled) \<Rightarrow>
                    (Some (Inr (standardize_results platform raw_results)),
                     submitted @ polled))))"

section \<open>JobStatusStore (discovery\_tasks.py)\<close>

text \<open>
  The key-value store maps a key to a TTL in seconds and a stored JSON object. Every value
  under a \<open>discovery_job:\<close> key is the \<open>json.dumps\<close> of a dict, so \<open>json.loads\<close> of what
  \<open>r.get\<close> returns is that dict again: serialisation is left out, and the store is taken
  to answer every call.
\<close>

type_synonym store = "string \<Rightarrow> (nat \<times> dict) option"

definition job_key :: "string \<Rightarrow> string" where
  "job_key job_id = ''discovery_job:'' @ job_id"

text \<open>
  Lines 118-127 of \<open>update_discovery_job_status\<close>: the record that is written back.
  \<open>now\<close> is \<open>datetime.now().isoformat()\<close>; \<open>kwargs\<close> are the keyword arguments, merged last
  by \<open>job_data.update(kwargs)\<close>. Python binds the keywords \<open>job_id\<close> and \<open>status\<close> to the
  parameters of those names, so they never reach \<open>kwargs\<close>.
\<close>

definition updated_job_data :: "string \<Rightarrow> string \<Rightarrow> json \<Rightarrow> dict \<Rightarrow> store \<Rightarrow> dict" where
  "updated_job_data now job_id status kwargs r =
     (let job_data = (case r (job_key job_id) of
                        Some (ttl, stored) \<Rightarrow> stored
                      | None \<Rightarrow> [(''job_id'', JStr job_id)]);
          job_data = AList.update ''status'' status job_data;
          job_data = AList.update ''updated_at'' (JStr now) job_data
      in fold (\<lambda>kv. AList.update (fst kv) (snd kv)) kwargs job_data)"

text \<open>Line 130: \<open>r.setex(job_key, 86400, json.dumps(job_data))\<close>.\<close>

definition update_discovery_job_status ::
  "string \<Rightarrow> string \<Rightarrow> json \<Rightarrow> dict \<Rightarrow> store \<Rightarrow> store" where
  "update_discovery_job_status now job_id status kwargs r =
     r(job_key job_id := Some (86400, updated_job_data now job_id status kwargs r))"

section \<open>BatchImporter (discovery\_tasks.py)\<close>

subsection \<open>Building the CRM payload\<close>

text \<open>
  \<open>profile.get('bio', '')[:5000] if profile.get('bio') else ''\<close>: a truthy bio is sliced,
  which a string or a list supports.
\<close>

definition bio_property :: "dict \<Rightarrow> py_error + json" where
  "bio_property profile =
     (if py_truthy (dict_get profile ''bio'' JNull)
      then (case dict_get profile ''bio'' (JStr '''') of
              JStr s \<Rightarrow> Inr (JStr (take 5000 s))
            | JList xs \<Rightarrow> Inr (JList (take 5000 xs))
            | _ \<Rightarrow> Inl (TypeError ''object is not subscriptable''))
      else Inr (JStr ''''))"

text \<open>
  Lines 157-204 for one profile: the property literal (\<open>profile['profile_url']\<close> raises a
  KeyError when the key is missing), the extra \<open>_url\<close> keys copied over it, the \<open>None\<close> values
  dropped. \<open>now\<close> is the \<open>datetime.now().isoformat()\<close> of this pass.
\<close>

definition prepare_contact :: "string \<Rightarrow> string \<Rightarrow> dict \<Rightarrow> py_error + json" where
  "prepare_contact job_id now profile =
     (case map_of profile ''profile_url'' of
        None \<Rightarrow> Inl (KeyError ''profile_url'')
      | Some profile_url \<Rightarrow>
          (case bio_property profile of
             Inl e \<Rightarrow> Inl e
           | Inr bio \<Rightarrow>
               Inr (JDict [(''properties'', JDict
                 (filter (\<lambda>kv. snd kv \<noteq> JNull)
                   (fold (\<lambda>kv properties.
                            if py_endswith (fst kv) ''_url'' \<and> fst kv \<notin> set [''profile_url'']
                            then AList.update (fst kv) (snd kv) properties
                            else properties)
                      profile
                      [(''platform'', dict_get profile ''platform'' (JStr ''instagram'')),
                       (''profile_url'', profile_url),
                       (''instagram_handle'', dict_get profile ''handle'' (JStr '''')),
                       (''firstname'', dict_get profile ''first_name'' (JStr '''')),
                       (''lastname'', dict_get profile ''last_name'' (JStr '''')),
                       (''followers'', dict_get profile ''follower_count'' (JInt 0)),
                       (''engagement_rate'', dict_get profile ''engagement_rate'' (JInt 0)),
                       (''email'', dict_get profile ''email'' JNull),
                       (''phone'', dict_get profile ''phone'' JNull),
                       (''city'', dict_get profile ''city'' JNull),
                       (''state'', dict_get profile ''state'' JNull),
                       (''country'', dict_get profile ''country'' JNull),
                       (''bio'', bio),
                       (''discovery_source'', JStr ''insightiq_discovery''),
                       (''discovery_job_id'', JStr job_id),
                       (''discovery_date'', JStr now),
                       (''enrichment_status'', JStr ''pending''),
                       (''lifecycle_stage'', JStr ''lead''),
                       (''audience_credibility'',
                          dict_get profile ''audience_credibility'' JNull),
                       (''last_post_date'', dict_get profile ''last_post_date'' JNull)])))])))"

text \<open>The loop of line 156; \<open>timestamp i\<close> is the \<open>datetime.now().isoformat()\<close> read for the
  profile at position \<open>i\<close>.\<close>

fun prepare_contacts ::
  "string \<Rightarrow> (nat \<Rightarrow> string) \<Rightarrow> nat \<Rightarrow> dict list \<Rightarrow> py_error + json list" where
  "prepare_contacts job_id timestamp i [] = Inr []"
| "prepare_contacts job_id timestamp i (profile # profiles) =
     (case prepare_contact job_id (timestamp i) profile of
        Inl e \<Rightarrow> Inl e
      | Inr contact \<Rightarrow>
          (case prepare_contacts job_id timestamp (Suc i) profiles of
             Inl e \<Rightarrow> Inl e
           | Inr contacts \<Rightarrow> Inr (contact # contacts)))"

subsection \<open>Reading one CRM response\<close>

text \<open>
  Lines 248-249: the messages of the first three errors are formatted for the debug log;
  \<open>batch_errors[:3]\<close> slices a list or a string, and \<open>error.get\<close> needs a dict.
\<close>

definition log_first_errors :: "json \<Rightarrow> py_error + unit" where
  "log_first_errors batch_errors =
     (case batch_errors of
        JList errors \<Rightarrow>
          if list_all (\<lambda>error. case error of JDict d \<Rightarrow> True | _ \<Rightarrow> False) (take 3 errors)
          then Inr () else Inl (AttributeError ''object has no attribute get'')
      | JStr s \<Rightarrow> if s = [] then Inr () else Inl (AttributeError ''object has no attribute get'')
      | _ \<Rightarrow> Inl (TypeError ''object is not subscriptable''))"

text \<open>
  Lines 237-249, the 207 branch, on the parsed body. It gives the two counters as they stand
  when the branch ends, and whether it ended by raising: the counters are updated before the
  errors are logged, so a raise after that point keeps the additions.
\<close>

definition multi_status :: "json \<Rightarrow> nat \<Rightarrow> nat \<Rightarrow> (nat \<times> nat) \<times> bool" where
  "multi_status result created_count skipped_count =
     (case py_get result ''results'' (JList []) of
        Inl e \<Rightarrow> ((created_count, skipped_count), True)
      | Inr results \<Rightarrow>
          (case py_len results of
             Inl e \<Rightarrow> ((created_count, skipped_count), True)
           | Inr batch_created \<Rightarrow>
               (case py_get result ''errors'' (JList []) of
                  Inl e \<Rightarrow> ((created_count, skipped_count), True)
                | Inr batch_errors \<Rightarrow>
                    (case py_len batch_errors of
                       Inl e \<Rightarrow> ((created_count, skipped_count), True)
                     | Inr batch_skipped \<Rightarrow>
                         ((created_count + batch_created, skipped_count + batch_skipped),
                          isl (log_first_errors batch_errors))))))"

text \<open>
  Lines 217-258 for one batch: 201 counts the batch as created, 207 is read as above, any
  other status counts the batch as skipped, and whatever is raised inside the \<open>try\<close> (the
  transport failing, the body not parsing, the 207 branch raising) adds the batch to the
  skipped counter.
\<close>

definition post_batch :: "http_outcome \<Rightarrow> nat \<Rightarrow> nat \<Rightarrow> nat \<Rightarrow> nat \<times> nat" where
  "post_batch outcome batch_len created_count skipped_count =
     (case outcome of
        RequestException m \<Rightarrow> (created_count, skipped_count + batch_len)
      | Response status_code text body \<Rightarrow>
          if status_code = 201 then (created_count + batch_len, skipped_count)
          else if status_code = 207
          then (case body of
                  Inl m \<Rightarrow> (created_count, skipped_count + batch_len)
                | Inr result \<Rightarrow>
                    (case multi_status result created_count skipped_count of
                       ((created_count', skipped_count'), raised) \<Rightarrow>
                         if raised then (created_count', skipped_count' + batch_len)
                         else (created_count', skipped_count')))
          else (created_count, skipped_count + batch_len))"

subsection \<open>import\_profiles\_to\_hubspot\<close>

text \<open>
  The loop \<open>for i in range(0, len(contacts), 100)\<close>, on the contacts not yet sent:
  \<open>batch_num\<close> is \<open>i // 100 + 1\<close>, \<open>crm batch_num\<close> is what the POST of that batch gives back,
  and the half-second sleep is taken when contacts remain (\<open>i + 100 < len(contacts)\<close>).
\<close>

function import_batches ::
  "(nat \<Rightarrow> http_outcome) \<Rightarrow> nat \<Rightarrow> json list \<Rightarrow> nat \<Rightarrow> nat \<Rightarrow> (nat \<times> nat) \<times> event list" where
  "import_batches crm batch_num contacts created_count skipped_count =
     (if contacts = [] then ((created_count, skipped_count), [])
      else (let batch = take 100 contacts;
                remaining = drop 100 contacts
            in case post_batch (crm batch_num) (length batch) created_count skipped_count of
              (created_count', skipped_count') \<Rightarrow>
                (case import_batches crm (batch_num + 1) remaining created_count' skipped_count' of
                   (counts, events) \<Rightarrow>
                     (counts,
                      CrmBatchCreate batch
                        # (if remaining \<noteq> [] then [Sleep 500] else []) @ events))))"
  by pat_completeness auto
termination
  by (relation "measure (\<lambda>(crm, batch_num, contacts, created_count, skipped_count).
        length contacts)") auto

record import_result =
  created :: nat
  skipped :: nat

definition import_profiles_to_hubspot ::
  "string option \<Rightarrow> (nat \<Rightarrow> string) \<Rightarrow> (nat \<Rightarrow> http_outcome) \<Rightarrow> dict list \<Rightarrow> string
     \<Rightarrow> (py_error + import_result) \<times> event list" where
  "import_profiles_to_hubspot HUBSPOT_API_KEY timestamp crm profiles job_id =
     (if HUBSPOT_API_KEY = None \<or> HUBSPOT_API_KEY = Some ''''
      then (Inl (ValueError ''HUBSPOT_API_KEY must be set in environment''), [])
      else (case prepare_contacts job_id timestamp 0 profiles of
              Inl e \<Rightarrow> (Inl e, [])
            | Inr contacts \<Rightarrow>
                (case import_batches crm 1 contacts 0 0 of
                   ((created_count, skipped_count), events) \<Rightarrow>
                     (Inr \<lparr>created = created_count, skipped = skipped_count\<rparr>, events))))"

section \<open>DiscoveryOrchestrator (discovery\_tasks.py)\<close>

text \<open>
  What one run of the task reads from outside: the environment variables, the id the task
  queue gave the request, the clock (\<open>clock n\<close> is \<open>datetime.now().isoformat()\<close> read after
  \<open>n\<close> effects have happened), and the answers of the vendor and of the CRM.
\<close>

record env =
  INSIGHTIQ_CLIENT_ID :: "string option"
  INSIGHTIQ_SECRET :: "string option"
  HUBSPOT_API_KEY :: "string option"
  request_id :: string
  clock :: "nat \<Rightarrow> string"
  submit_response :: http_outcome
  poll_script :: "(real \<times> http_outcome) list"
  crm_response :: "nat \<Rightarrow> http_outcome"

text \<open>The state a run changes: the status store, and the effects so far.\<close>

record world =
  store :: store
  trace :: "event list"

definition emit :: "event list \<Rightarrow> world \<Rightarrow> world" where
  "emit events w = w\<lparr>trace := trace w @ events\<rparr>"

text \<open>A call of \<open>update_discovery_job_status\<close> from the task: the store write and its event.\<close>

definition set_status :: "env \<Rightarrow> string \<Rightarrow> json \<Rightarrow> dict \<Rightarrow> world \<Rightarrow> world" where
  "set_status e job_id status kwargs w =
     (let now = clock e (length (trace w))
      in \<lparr>store = update_discovery_job_status now job_id status kwargs (store w),
          trace = trace w
            @ [RedisSetex (job_key job_id) 86400
                 (updated_job_data now job_id status kwargs (store w))]\<rparr>)"

text \<open>\<open>not v\<close> for what \<open>os.getenv\<close> returns.\<close>

definition unset :: "string option \<Rightarrow> bool" where
  "unset v \<longleftrightarrow> v = None \<or> v = Some ''''"

text \<open>
  Lines 49-64: the credentials check and the lookalike validation; it gives back the filters
  the rest of the task uses (\<open>user_filters or {}\<close>).
\<close>

definition validate_filters :: "env \<Rightarrow> json \<Rightarrow> py_error + json" where
  "validate_filters e user_filters0 =
     (if unset (INSIGHTIQ_CLIENT_ID e) \<or> unset (INSIGHTIQ_SECRET e)
      then Inl (ValueError
             ''INSIGHTIQ_CLIENT_ID and INSIGHTIQ_SECRET must be set in environment'')
      else (let user_filters = filters_or_empty user_filters0
            in case py_get user_filters ''lookalike_type'' JNull of
              Inl err \<Rightarrow> Inl err
            | Inr lookalike_type \<Rightarrow>
                (case py_get user_filters ''lookalike_username'' (JStr '''') of
                   Inl err \<Rightarrow> Inl err
                 | Inr username \<Rightarrow>
                     (case py_strip_method username of
                        Inl err \<Rightarrow> Inl err
                      | Inr lookalike_username \<Rightarrow>
                          if py_truthy lookalike_type
                             \<and> lookalike_type \<notin> set [JStr ''creator'', JStr ''audience'']
                          then Inl (ValueError
                                 (''lookalike_type must be '' @ [CHR 0x27] @ ''creator''
                                  @ [CHR 0x27] @ '' or '' @ [CHR 0x27] @ ''audience''
                                  @ [CHR 0x27]))
                          else if py_truthy lookalike_type \<and> lookalike_username = []
                          then Inl (ValueError
                                 ''lookalike_username required when lookalike_type is set'')
                          else Inr user_filters))))"

text \<open>
  The \<open>try\<close> block of \<open>discover_instagram_profiles\<close> (lines 45-98). The result is \<open>None\<close> when
  the poll script ends with the vendor loop still polling; otherwise the exception raised or
  the summary returned. The world is given back in every case.
\<close>

definition discovery_try ::
  "env \<Rightarrow> json \<Rightarrow> string \<Rightarrow> world \<Rightarrow> (py_error + dict) option \<times> world" where
  "discovery_try e user_filters0 job_id w =
     (let w = set_status e job_id (JStr ''discovering'') [] w
      in case validate_filters e user_filters0 of
        Inl err \<Rightarrow> (Some (Inl err), w)
      | Inr user_filters \<Rightarrow>
          (case search_profiles (submit_response e) (poll_script e) ''instagram'' user_filters of
             (None, events) \<Rightarrow> (None, emit events w)
           | (Some (Inl err), events) \<Rightarrow> (Some (Inl err), emit events w)
           | (Some (Inr profiles), events) \<Rightarrow>
               (let w = emit events w;
                    w = set_status e job_id (JStr ''importing'')
                          [(''profiles_found'', JInt (int (length profiles)))] w
                in case import_profiles_to_hubspot (HUBSPOT_API_KEY e)
                          (\<lambda>i. clock e (length (trace w) + i)) (crm_response e) profiles job_id of
                  (Inl err, events) \<Rightarrow> (Some (Inl err), emit events w)
                | (Inr import_results, events) \<Rightarrow>
                    (let w = emit events w;
                         w = set_status e job_id (JStr ''completed'')
                               [(''profiles_found'', JInt (int (length profiles))),
                                (''new_contacts_created'', JInt (int (created import_results))),
                                (''duplicates_skipped'', JInt (int (skipped import_results)))] w
                     in (Some (Inr [(''status'', JStr ''completed''),
                                    (''profiles_found'', JInt (int (length profiles))),
                                    (''new_contacts'', JInt (int (created import_results))),
                                    (''duplicates'', JInt (int (skipped import_results)))]),
                         w)))))"

text \<open>Lines 41-42: the job id defaults to the id of the request.\<close>

definition effective_job_id :: "env \<Rightarrow> string option \<Rightarrow> string" where
  "effective_job_id e job_id_arg = (case job_id_arg of None \<Rightarrow> request_id e | Some j \<Rightarrow> j)"

text \<open>
  The task: any exception of the \<open>try\<close> block is recorded with status \<open>failed\<close> and its
  text, then raised again.
\<close>

definition discover_instagram_profiles ::
  "env \<Rightarrow> json \<Rightarrow> string option \<Rightarrow> world \<Rightarrow> (py_error + dict) option \<times> world" where
  "discover_instagram_profiles e user_filters job_id_arg w =
     (let job_id = effective_job_id e job_id_arg
      in case discovery_try e user_filters job_id w of
        (Some (Inl err), w') \<Rightarrow>
          (Some (Inl err),
           set_status e job_id (JStr ''failed'') [(''error'', JStr (error_text err))] w')
      | (result, w') \<Rightarrow> (result, w'))"

section \<open>Shapes of vendor pages and of poll scripts\<close>

text \<open>
  The vocabulary of the statements about polling. A page is still in progress when it is an
  object whose status is \<open>IN_PROGRESS\<close>. It is a results page with items \<open>items\<close> and total
  \<open>reported\<close> when it is an object whose status is neither \<open>IN_PROGRESS\<close> nor \<open>FAILED\<close>, whose
  \<open>data\<close> (an empty list when absent) holds \<open>items\<close>, and whose \<open>metadata.total_results\<close> (0
  when absent) is the number \<open>reported\<close>.
\<close>

definition in_progress_page :: "json \<Rightarrow> bool" where
  "in_progress_page data =
     (case data of JDict d \<Rightarrow> dict_get d ''status'' JNull = JStr ''IN_PROGRESS'' | _ \<Rightarrow> False)"

definition results_page :: "json \<Rightarrow> json list \<Rightarrow> real \<Rightarrow> bool" where
  "results_page data items reported =
     (case data of
        JDict d \<Rightarrow>
          dict_get d ''status'' JNull \<noteq> JStr ''IN_PROGRESS''
          \<and> dict_get d ''status'' JNull \<noteq> JStr ''FAILED''
          \<and> dict_get d ''data'' (JList []) = JList items
          \<and> (case dict_get d ''metadata'' (JDict []) of
                JDict m \<Rightarrow> py_number (dict_get m ''total_results'' (JInt 0)) = Some reported
              | _ \<Rightarrow> False)
      | _ \<Rightarrow> False)"

text \<open>
  \<open>polls_through script offset fetched script' offset' fetched'\<close>: started on \<open>script\<close> with
  the given offset and accumulated results, the loop is still polling when only \<open>script'\<close> is
  left, then with \<open>offset'\<close> and \<open>fetched'\<close>. Every poll in between was made within the
  600 seconds, was answered with status 200, and brought either a page in progress or a
  results page that did not end the loop (offset + 100 below its total, and not empty).
\<close>

inductive polls_through ::
  "(real \<times> http_outcome) list \<Rightarrow> nat \<Rightarrow> json list
     \<Rightarrow> (real \<times> http_outcome) list \<Rightarrow> nat \<Rightarrow> json list \<Rightarrow> bool" where
  here: "polls_through script offset fetched script offset fetched"
| waiting:
    "elapsed \<le> 600 \<Longrightarrow> in_progress_page data \<Longrightarrow>
     polls_through script offset fetched script' offset' fetched' \<Longrightarrow>
     polls_through ((elapsed, Response 200 text (Inr data)) # script) offset fetched
       script' offset' fetched'"
| next_page:
    "elapsed \<le> 600 \<Longrightarrow> results_page data items reported \<Longrightarrow>
     real (offset + 100) < reported \<Longrightarrow> items \<noteq> [] \<Longrightarrow>
     polls_through script (offset + 100) (fetched @ items) script' offset' fetched' \<Longrightarrow>
     polls_through ((elapsed, Response 200 text (Inr data)) # script) offset fetched
       script' offset' fetched'"

section \<open>Shapes of CRM answers, profiles and filters\<close>

text \<open>
  A 207 body reconciles with a batch of \<open>batch_len\<close> contacts when it is an object whose
  \<open>results\<close> and \<open>errors\<close> (empty lists when absent) are lists that together have
  \<open>batch_len\<close> entries, the first three errors being objects.
\<close>

definition reconciled_multi_status :: "nat \<Rightarrow> json \<Rightarrow> bool" where
  "reconciled_multi_status batch_len result =
     (case result of
        JDict d \<Rightarrow>
          (case dict_get d ''results'' (JList []) of
             JList results \<Rightarrow>
               (case dict_get d ''errors'' (JList []) of
                  JList errors \<Rightarrow>
                    length results + length errors = batch_len
                    \<and> list_all (\<lambda>error. case error of JDict m \<Rightarrow> True | _ \<Rightarrow> False)
                          (take 3 errors)
                | _ \<Rightarrow> False)
           | _ \<Rightarrow> False)
      | _ \<Rightarrow> False)"

text \<open>
  A profile the importer can turn into a contact: it has a profile URL, and its bio, when
  truthy, is a string or a list.
\<close>

definition importable :: "dict \<Rightarrow> bool" where
  "importable profile =
     (map_of profile ''profile_url'' \<noteq> None
      \<and> (case dict_get profile ''bio'' JNull of
            JStr s \<Rightarrow> True
          | JList xs \<Rightarrow> True
          | v \<Rightarrow> \<not> py_truthy v))"

text \<open>The lookalike handle of a filter set is blank: missing, null, or only whitespace.\<close>

definition lookalike_handle_blank :: "dict \<Rightarrow> bool" where
  "lookalike_handle_blank user_filters =
     (case dict_get user_filters ''lookalike_username'' (JStr '''') of
        JStr handle \<Rightarrow> py_strip handle = []
      | JNull \<Rightarrow> True
      | _ \<Rightarrow> False)"

fun is_vendor_call :: "event \<Rightarrow> bool" where
  "is_vendor_call (VendorSubmit parameters) = True"
| "is_vendor_call (VendorPoll job_id offset limit) = True"
| "is_vendor_call ev = False"

fun is_crm_call :: "event \<Rightarrow> bool" where
  "is_crm_call (CrmBatchCreate batch) = True"
| "is_crm_call ev = False"

section \<open>Properties of the standardizer\<close>

subsection \<open>Per-record independence\<close>

lemma standardize_results_length:
  "length (standardize_results platform raw)
     + length (filter (\<lambda>r. isl (standardize_profile platform r)) raw) = length raw"
  by (induction raw) (auto split: sum.splits)

lemma standardize_results_map:
  "standardize_results platform raw =
     map (\<lambda>r. projr (standardize_profile platform r))
       (filter (\<lambda>r. \<not> isl (standardize_profile platform r)) raw)"
  by (induction raw) (auto split: sum.splits)

text \<open>
  C6. Of N raw records, the K whose processing raises are exactly the ones left out: the
  output has N - K entries, and it is the list, in input order, of what
  \<open>standardize_profile\<close> computes from each remaining record on its own (with the platform
  name). A raising record therefore never stops the records after it from being processed.
\<close>

theorem standardize_results_skips_malformed:
  "length (standardize_results platform raw_results)
     + length (filter (\<lambda>r. isl (standardize_profile platform r)) raw_results)
     = length raw_results
   \<and> standardize_results platform raw_results =
       map (\<lambda>r. projr (standardize_profile platform r))
         (filter (\<lambda>r. \<not> isl (standardize_profile platform r)) raw_results)"
  using standardize_results_length standardize_results_map by blast

text \<open>
  Four records, two of them raising (a null record, and one whose location is null): two
  profiles come out, the ones of the second and fourth record.
\<close>

theorem standardize_results_skips_malformed_witness:
  "length (standardize_results ''youtube''
     [JNull,
      JDict [(''url'', JStr ''u1'')],
      JDict [(''url'', JStr ''u2''), (''creator_location'', JNull)],
      JDict [(''url'', JStr ''u3'')]]) + 2 = 4
   \<and> map (\<lambda>sp. dict_get sp ''profile_url'' JNull) (standardize_results ''youtube''
     [JNull,
      JDict [(''url'', JStr ''u1'')],
      JDict [(''url'', JStr ''u2''), (''creator_location'', JNull)],
      JDict [(''url'', JStr ''u3'')]]) = [JStr ''u1'', JStr ''u3'']"
  using standardize_results_skips_malformed [of "''youtube''"
     "[JNull,
      JDict [(''url'', JStr ''u1'')],
      JDict [(''url'', JStr ''u2''), (''creator_location'', JNull)],
      JDict [(''url'', JStr ''u3'')]]"]
  by (simp add: standardize_profile_def extract_contact_details_def dict_get_def
      name_parts_of_def Let_def)

subsection \<open>Duplicate contact types\<close>

text \<open>
  C7. On a contact list that names the type email twice, \<open>_extract_contact_details\<close> of
  discovery\_module.py keeps the value of the second entry (its assignment is unconditional,
  so the last occurrence wins), while the same method in app/services/insightiq.py, guarded
  by \<open>contact_type not in contacts\<close>, keeps the first.
\<close>

theorem extract_contact_details_duplicate_type:
  "extract_contact_details
     (JList [JDict [(''type'', JStr ''email''), (''value'', JStr ''first@x.com'')],
             JDict [(''type'', JStr ''EMAIL''), (''value'', JStr ''second@x.com'')]])
     = Inr [(''email'', JStr ''second@x.com'')]
   \<and> extract_contact_details_svc
     (JList [JDict [(''type'', JStr ''email''), (''value'', JStr ''first@x.com'')],
             JDict [(''type'', JStr ''EMAIL''), (''value'', JStr ''second@x.com'')]])
     = Inr [(''email'', JStr ''first@x.com'')]"
  by (simp add: extract_contact_details_def extract_step_def extract_contact_details_svc_def
      extract_step_svc_def py_lower_def lower_char_def contact_key_def)

text \<open>
  In general: in discovery\_module.py a well-formed entry always takes over the key of its
  type, whatever was stored under it; in app/services/insightiq.py a key once stored keeps
  its value to the end of the loop.
\<close>

lemma extract_step_overwrites:
  assumes "py_lower t \<noteq> []" and "py_truthy v"
  shows "\<exists>c'. extract_step c (JDict [(''type'', JStr t), (''value'', v)]) = Inr c'
           \<and> map_of c' (contact_key (py_lower t)) = Some v"
  using assms by (simp add: extract_step_def update_conv')

lemma extract_step_svc_keeps:
  assumes "extract_step_svc c d = Inr c'" and "map_of c k = Some v"
  shows "map_of c' k = Some v"
  using assms
  by (auto simp: extract_step_svc_def update_conv' split: sum.splits if_splits)

lemma extract_loop_svc_keeps:
  "extract_loop_svc c ds = Inr c' \<Longrightarrow> map_of c k = Some v \<Longrightarrow> map_of c' k = Some v"
proof (induction ds arbitrary: c)
  case Nil
  then show ?case by simp
next
  case (Cons d ds)
  from Cons.prems(1) obtain c1
    where s: "extract_step_svc c d = Inr c1" and l: "extract_loop_svc c1 ds = Inr c'"
    by (auto split: sum.splits)
  from Cons.IH[OF l extract_step_svc_keeps[OF s Cons.prems(2)]] show ?case .
qed


subsection \<open>Follower count\<close>

lemma keys_update: "fst ` set (AList.update k v al) = insert k (fst ` set al)"
  by (induction al) auto

lemma fold_update_other:
  "k \<notin> fst ` set xs \<Longrightarrow>
     map_of (fold (\<lambda>kv. AList.update (fst kv) (snd kv)) xs base) k = map_of base k"
  by (induction xs arbitrary: base) (auto simp: update_conv')

lemma contact_key_cases:
  "contact_key t = ''email'' \<or> contact_key t = ''phone''
     \<or> py_endswith (contact_key t) ''_url''"
  by (auto simp: contact_key_def py_endswith_def)

lemma extract_step_cases:
  "extract_step c d = Inr c' \<Longrightarrow>
     c' = c \<or> (\<exists>t v. c' = AList.update (contact_key t) v c)"
  by (auto simp: extract_step_def split: sum.splits if_splits)

lemma extract_step_keys:
  assumes "extract_step c d = Inr c'" and "k \<in> fst ` set c'"
  shows "k \<in> fst ` set c \<or> k = ''email'' \<or> k = ''phone'' \<or> py_endswith k ''_url''"
proof -
  from extract_step_cases[OF assms(1)] show ?thesis
  proof
    assume "c' = c"
    with assms(2) show ?thesis by simp
  next
    assume "\<exists>t v. c' = AList.update (contact_key t) v c"
    then obtain t v where "c' = AList.update (contact_key t) v c" by blast
    with assms(2) have "k = contact_key t \<or> k \<in> fst ` set c"
      by (simp add: keys_update)
    with contact_key_cases[of t] show ?thesis by auto
  qed
qed

lemma extract_loop_keys:
  "extract_loop c ds = Inr c' \<Longrightarrow> k \<in> fst ` set c' \<Longrightarrow>
     k \<in> fst ` set c \<or> k = ''email'' \<or> k = ''phone'' \<or> py_endswith k ''_url''"
proof (induction ds arbitrary: c)
  case Nil
  then show ?case by simp
next
  case (Cons d ds)
  from Cons.prems(1) obtain c1
    where s: "extract_step c d = Inr c1" and l: "extract_loop c1 ds = Inr c'"
    by (auto split: sum.splits)
  from Cons.IH[OF l Cons.prems(2)] extract_step_keys[OF s] show ?case by blast
qed

lemma extract_contact_details_keys:
  "extract_contact_details cd = Inr c' \<Longrightarrow> k \<in> fst ` set c' \<Longrightarrow>
     k = ''email'' \<or> k = ''phone'' \<or> py_endswith k ''_url''"
  using extract_loop_keys[of "[]" _ c' k]
  by (auto simp: extract_contact_details_def split: sum.splits)

text \<open>The unpacked contact entries never touch the follower count of the literal.\<close>

lemma standardize_profile_follower_count:
  assumes "standardize_profile platform (JDict p) = Inr sp"
  shows "map_of sp ''follower_count'' = Some (follower_count_of p)"
proof -
  from assms obtain cd
    where cd: "extract_contact_details (dict_get p ''contact_details'' (JList [])) = Inr cd"
    by (auto simp: standardize_profile_def split: sum.splits)
  have "''follower_count''
      \<notin> fst ` set (filter (\<lambda>kv. fst kv \<notin> set [''email'', ''phone'']) cd)"
    using extract_contact_details_keys[OF cd, of "''follower_count''"]
    by (auto simp: py_endswith_def)
  from fold_update_other[OF this] assms cd show ?thesis
    by (auto simp: standardize_profile_def Let_def split: sum.splits json.splits)
qed

lemma standardize_profile_svc_followers:
  assumes "standardize_profile_svc (JDict p) = Inr sp"
  shows "map_of sp ''instagram_followers'' = Some (instagram_followers_of p)"
  using assms by (auto simp: standardize_profile_svc_def split: sum.splits json.splits)

text \<open>
  C8, as the code has it. In discovery\_module.py the canonical follower count is the
  follower-count field when that field is present and truthy; when it is absent or falsy
  (null, 0, an empty string) it is the subscriber-count field, or 0 when that is absent
  too. In app/services/insightiq.py the count is the follower-count field, or 0 when it
  is absent, and the subscriber count is never read.
\<close>

theorem follower_count_fallback:
  "(standardize_profile platform (JDict p) = Inr sp \<longrightarrow>
      map_of sp ''follower_count'' =
        Some (case map_of p ''follower_count'' of
                Some v \<Rightarrow>
                  if py_truthy v then v
                  else (case map_of p ''subscriber_count'' of Some s \<Rightarrow> s | None \<Rightarrow> JInt 0)
              | None \<Rightarrow>
                  (case map_of p ''subscriber_count'' of Some s \<Rightarrow> s | None \<Rightarrow> JInt 0)))
   \<and> (standardize_profile_svc (JDict p) = Inr sp' \<longrightarrow>
      map_of sp' ''instagram_followers'' =
        Some (case map_of p ''follower_count'' of Some v \<Rightarrow> v | None \<Rightarrow> JInt 0))"
proof (intro conjI impI)
  assume "standardize_profile platform (JDict p) = Inr sp"
  from standardize_profile_follower_count[OF this]
  show "map_of sp ''follower_count'' =
        Some (case map_of p ''follower_count'' of
                Some v \<Rightarrow>
                  if py_truthy v then v
                  else (case map_of p ''subscriber_count'' of Some s \<Rightarrow> s | None \<Rightarrow> JInt 0)
              | None \<Rightarrow>
                  (case map_of p ''subscriber_count'' of Some s \<Rightarrow> s | None \<Rightarrow> JInt 0))"
    by (simp add: follower_count_of_def py_or_def dict_get_def split: option.splits)
next
  assume "standardize_profile_svc (JDict p) = Inr sp'"
  from standardize_profile_svc_followers[OF this]
  show "map_of sp' ''instagram_followers'' =
        Some (case map_of p ''follower_count'' of Some v \<Rightarrow> v | None \<Rightarrow> JInt 0)"
    by (simp add: instagram_followers_of_def dict_get_def)
qed

text \<open>
  A record with 1200 followers and 7 subscribers: both variants report 1200.
\<close>

theorem follower_count_fallback_witness:
  "map_of (projr (standardize_profile ''instagram''
       (JDict [(''follower_count'', JInt 1200), (''subscriber_count'', JInt 7)])))
     ''follower_count'' = Some (JInt 1200)
   \<and> map_of (projr (standardize_profile_svc
       (JDict [(''follower_count'', JInt 1200), (''subscriber_count'', JInt 7)])))
     ''instagram_followers'' = Some (JInt 1200)"
proof -
  let ?p = "[(''follower_count'', JInt 1200), (''subscriber_count'', JInt 7)]"
  have a: "\<exists>sp. standardize_profile ''instagram'' (JDict ?p) = Inr sp"
    by (simp add: standardize_profile_def extract_contact_details_def dict_get_def
        name_parts_of_def Let_def)
  have b: "\<exists>sp. standardize_profile_svc (JDict ?p) = Inr sp"
    by (simp add: standardize_profile_svc_def extract_contact_details_svc_def dict_get_def)
  from a obtain sp where sp: "standardize_profile ''instagram'' (JDict ?p) = Inr sp" ..
  from b obtain sp' where sp': "standardize_profile_svc (JDict ?p) = Inr sp'" ..
  from follower_count_fallback [of "''instagram''" ?p sp sp'] sp sp'
  show ?thesis by simp
qed

text \<open>
  The claim as written fails on discovery\_module.py: with the follower-count field present
  and equal to 0, the canonical follower count is the subscriber count 5.
\<close>

theorem follower_count_present_but_falsy:
  "map_of [(''follower_count'', JInt 0), (''subscriber_count'', JInt 5)] ''follower_count''
     = Some (JInt 0)
   \<and> standardize_profile ''instagram''
       (JDict [(''follower_count'', JInt 0), (''subscriber_count'', JInt 5)])
     = Inr [(''profile_url'', JStr ''''), (''handle'', JStr ''''),
            (''display_name'', JStr ''''), (''first_name'', JStr ''''),
            (''last_name'', JStr ''''), (''platform'', JStr ''instagram''),
            (''follower_count'', JInt 5), (''engagement_rate'', JInt 0),
            (''bio'', JStr ''''), (''email'', JNull), (''phone'', JNull),
            (''city'', JNull), (''state'', JNull), (''country'', JNull),
            (''audience_credibility'', JNull), (''last_post_date'', JNull)]"
  by (simp add: standardize_profile_def extract_contact_details_def dict_get_def
      name_parts_of_def Let_def follower_count_of_def py_or_def first_name_of_def
      last_name_of_def)

section \<open>Properties of the status store\<close>

lemma fold_update_lookup:
  "distinct (map fst xs) \<Longrightarrow>
   map_of (fold (\<lambda>kv. AList.update (fst kv) (snd kv)) xs base) k =
     (case map_of xs k of Some v \<Rightarrow> Some v | None \<Rightarrow> map_of base k)"
proof (induction xs arbitrary: base)
  case Nil
  then show ?case by simp
next
  case (Cons x xs)
  then show ?case
    by (cases x)
      (auto simp: update_conv' split: option.splits dest: map_of_SomeD intro: rev_image_eqI)
qed

lemma updated_job_data_lookup:
  assumes "distinct (map fst kwargs)"
  shows "map_of (updated_job_data now job_id status kwargs r) k =
          (case map_of kwargs k of
             Some v \<Rightarrow> Some v
           | None \<Rightarrow>
               if k = ''updated_at'' then Some (JStr now)
               else if k = ''status'' then Some status
               else map_of (case r (job_key job_id) of
                              Some (ttl, stored) \<Rightarrow> stored
                            | None \<Rightarrow> [(''job_id'', JStr job_id)]) k)"
  unfolding updated_job_data_def Let_def
  by (simp add: fold_update_lookup[OF assms] update_conv' split: option.splits)

text \<open>
  C9, as the code has it. The keyword arguments of a call are a dict (distinct names). After
  \<open>update_discovery_job_status(job_id, status, **kwargs)\<close> the record under the job's key has
  TTL 86400 and reads, field by field: the supplied value for a supplied field; otherwise
  the fresh timestamp for \<open>updated_at\<close> and the supplied status for \<open>status\<close>; otherwise what
  the record held before, the bare record \<open>{job_id}\<close> standing for a missing one. So the
  status is overwritten (it cannot be among the keyword arguments), and \<open>updated_at\<close> is the
  fresh stamp unless the caller supplies an \<open>updated_at\<close> of its own, which is merged after
  the stamp and replaces it. No other key of the store changes.
\<close>

theorem update_discovery_job_status_effect:
  assumes "distinct (map fst kwargs)"
  shows "\<exists>job_data.
      update_discovery_job_status now job_id status kwargs r (job_key job_id)
        = Some (86400, job_data)
    \<and> (\<forall>k. map_of job_data k =
          (case map_of kwargs k of
             Some v \<Rightarrow> Some v
           | None \<Rightarrow>
               if k = ''updated_at'' then Some (JStr now)
               else if k = ''status'' then Some status
               else map_of (case r (job_key job_id) of
                              Some (ttl, stored) \<Rightarrow> stored
                            | None \<Rightarrow> [(''job_id'', JStr job_id)]) k))
    \<and> (map_of kwargs ''status'' = None \<longrightarrow> map_of job_data ''status'' = Some status)
    \<and> (map_of kwargs ''updated_at'' = None \<longrightarrow>
          map_of job_data ''updated_at'' = Some (JStr now))
    \<and> (\<forall>key. key \<noteq> job_key job_id \<longrightarrow>
          update_discovery_job_status now job_id status kwargs r key = r key)"
proof -
  note look = updated_job_data_lookup[OF assms, of now job_id status r]
  show ?thesis
    apply (rule exI[of _ "updated_job_data now job_id status kwargs r"])
    apply (intro conjI allI impI)
        apply (simp add: update_discovery_job_status_def)
       apply (rule look)
      apply (simp add: look)
     apply (simp add: look)
    apply (simp add: update_discovery_job_status_def)
    done
qed

text \<open>
  A record left by the previous transition, with a short TTL, is updated to \<open>importing\<close>
  with a found count: status replaced in place, filters untouched, stamp and count added,
  TTL back to 86400.
\<close>

theorem update_discovery_job_status_effect_witness:
  "update_discovery_job_status ''2026-01-01T00:00:00'' ''j1'' (JStr ''importing'')
       [(''profiles_found'', JInt 3)]
       (Map.empty(job_key ''j1'' := Some (120, [(''job_id'', JStr ''j1''),
          (''status'', JStr ''discovering''), (''filters'', JDict [])])))
       (job_key ''j1'')
     = Some (86400, [(''job_id'', JStr ''j1''), (''status'', JStr ''importing''),
          (''filters'', JDict []), (''updated_at'', JStr ''2026-01-01T00:00:00''),
          (''profiles_found'', JInt 3)])"
  using update_discovery_job_status_effect [of "[(''profiles_found'', JInt 3)]"
      "''2026-01-01T00:00:00''" "''j1''" "JStr ''importing''"
      "Map.empty(job_key ''j1'' := Some (120, [(''job_id'', JStr ''j1''),
          (''status'', JStr ''discovering''), (''filters'', JDict [])]))"]
  by (simp add: update_discovery_job_status_def updated_job_data_def)

text \<open>
  The claim as written fails when \<open>updated_at\<close> is itself a supplied field: the call
  \<open>update_discovery_job_status('j1', 'failed', updated_at='1999-12-31T23:59:59')\<close> at clock
  reading 2026-01-01T00:00:00 stores the supplied value, not the fresh stamp.
\<close>

theorem supplied_updated_at_replaces_stamp:
  "update_discovery_job_status ''2026-01-01T00:00:00'' ''j1'' (JStr ''failed'')
       [(''updated_at'', JStr ''1999-12-31T23:59:59'')] Map.empty (job_key ''j1'')
     = Some (86400, [(''job_id'', JStr ''j1''), (''status'', JStr ''failed''),
          (''updated_at'', JStr ''1999-12-31T23:59:59'')])"
  by (simp add: update_discovery_job_status_def updated_job_data_def)

section \<open>Properties of job submission\<close>

text \<open>
  C5. In both implementations of \<open>_start_job\<close> the submission is the only effect and happens
  once, whatever comes back. A response whose status is neither 200 nor 202 raises; so does
  a response that carries no job identifier (its body is not an object with a truthy
  \<open>id\<close>), whatever its status; so does a transport failure. Nothing is retried: the error is
  the result.
\<close>

theorem submission_once_and_fatal:
  "snd (start_job outcome parameters) = [VendorSubmit parameters]
   \<and> snd (start_job_svc outcome parameters) = [VendorSubmit parameters]
   \<and> (status_code \<noteq> 200 \<and> status_code \<noteq> 202 \<longrightarrow>
        isl (fst (start_job (Response status_code body_text body) parameters))
        \<and> isl (fst (start_job_svc (Response status_code body_text body) parameters)))
   \<and> ((\<forall>d. body = Inr (JDict d) \<longrightarrow> \<not> py_truthy (dict_get d ''id'' JNull)) \<longrightarrow>
        isl (fst (start_job (Response status_code body_text body) parameters))
        \<and> isl (fst (start_job_svc (Response status_code body_text body) parameters)))
   \<and> isl (fst (start_job (RequestException m) parameters))
   \<and> isl (fst (start_job_svc (RequestException m) parameters))"
  by (auto simp: start_job_def start_job_svc_def dict_get_def
      split: sum.splits http_outcome.splits json.splits elim!: py_get.elims)

text \<open>
  A 503 is refused by both implementations, and so is a 202 whose body has no \<open>id\<close>; each
  time one submission was made.
\<close>

theorem submission_once_and_fatal_witness:
  "snd (start_job (Response 503 ''busy'' (Inl ''not json'')) []) = [VendorSubmit []]
   \<and> isl (fst (start_job (Response 503 ''busy'' (Inl ''not json'')) []))
   \<and> isl (fst (start_job_svc (Response 503 ''busy'' (Inl ''not json'')) []))
   \<and> snd (start_job_svc (Response 202 '''' (Inr (JDict [(''state'', JStr ''queued'')]))) [])
       = [VendorSubmit []]
   \<and> isl (fst (start_job (Response 202 '''' (Inr (JDict [(''state'', JStr ''queued'')]))) []))
   \<and> isl (fst (start_job_svc
        (Response 202 '''' (Inr (JDict [(''state'', JStr ''queued'')]))) []))"
  using submission_once_and_fatal
      [where outcome = "Response 503 ''busy'' (Inl ''not json'')" and parameters = "[]"
         and status_code = 503 and body_text = "''busy''" and body = "Inl ''not json''"]
    submission_once_and_fatal
      [where outcome = "Response 202 '''' (Inr (JDict [(''state'', JStr ''queued'')]))"
         and parameters = "[]" and status_code = 202 and body_text = "''''"
         and body = "Inr (JDict [(''state'', JStr ''queued'')])"]
  by (simp add: dict_get_def)

text \<open>
  The two implementations differ on an accepted 202 that does carry an id: discovery\_module.py
  accepts status 200 only and raises, app/services/insightiq.py returns the id.
\<close>

lemma start_job_202:
  "fst (start_job (Response 202 '''' (Inr (JDict [(''id'', JStr ''v1'')]))) parameters)
     = Inl (Exception ''Failed to start job: '')
   \<and> fst (start_job_svc (Response 202 '''' (Inr (JDict [(''id'', JStr ''v1'')]))) parameters)
     = Inr (JStr ''v1'')"
  by (simp add: start_job_def start_job_svc_def)

text \<open>In \<open>search_profiles\<close> a refused submission ends the search: nothing is polled.\<close>

lemma search_profiles_submission_fatal:
  assumes "build_parameters platform user_filters = Inr parameters"
    and "fst (start_job outcome parameters) = Inl err"
  shows "search_profiles outcome script platform user_filters
           = (Some (Inl err), [VendorSubmit parameters])"
  using assms by (auto simp: search_profiles_def start_job_def split: prod.splits)

section \<open>Properties of the polling loop\<close>

lemma read_page_in_progress:
  "in_progress_page data \<Longrightarrow> read_page data = Inr StillProcessing"
  by (auto simp: in_progress_page_def read_page_def split: json.splits)

lemma read_page_results:
  "results_page data items reported \<Longrightarrow>
     \<exists>t. read_page data = Inr (Batch items t) \<and> py_number t = Some reported"
  by (auto simp: results_page_def read_page_def dict_get_def split: json.splits)

lemma poll_step_in_progress:
  "in_progress_page data \<Longrightarrow>
     poll_step (Response 200 body_text (Inr data)) offset fetched = Wait"
  by (simp add: poll_step_def read_page_in_progress)

lemma poll_step_results:
  assumes "results_page data items reported"
  shows "poll_step (Response 200 body_text (Inr data)) offset fetched =
     (if real (offset + 100) \<ge> reported \<or> items = [] then Done (fetched @ items)
      else NextPage (fetched @ items))"
proof -
  from read_page_results[OF assms] obtain t
    where "read_page data = Inr (Batch items t)" and "py_number t = Some reported" by blast
  then show ?thesis
    by (auto simp: poll_step_def got_all_def py_int_ge_def)
qed

text \<open>While the polls go through, the loop's result is the result of what remains.\<close>

lemma fetch_loop_polls_through:
  "polls_through script offset fetched script' offset' fetched' \<Longrightarrow>
     fst (fetch_loop job_id script offset fetched)
       = fst (fetch_loop job_id script' offset' fetched')"
proof (induction rule: polls_through.induct)
  case (here script offset fetched)
  show ?case by simp
next
  case (waiting elapsed data script offset fetched script' offset' fetched' t0)
  then show ?case
    by (auto simp add: poll_step_in_progress split: prod.splits)
next
  case (next_page elapsed data items reported offset script fetched script' offset' fetched' t0)
  then show ?case
    by (auto simp add: poll_step_results split: prod.splits)
qed

text \<open>The loop only polls and sleeps.\<close>

lemma fetch_loop_events:
  "ev \<in> set (snd (fetch_loop job_id script offset fetched)) \<Longrightarrow>
     \<not> is_crm_call ev \<and> (\<forall>k ttl d. ev \<noteq> RedisSetex k ttl d)"
  by (induction job_id script offset fetched rule: fetch_loop.induct)
    (auto split: if_splits step.splits prod.splits)

text \<open>
  C2. Let the loop, started by \<open>_fetch_results\<close>, have polled through the script up to a poll
  made within the 600 seconds and answered 200 with a results page (status neither
  \<open>IN_PROGRESS\<close> nor \<open>FAILED\<close>) such that offset + 100 reaches the page's total, or the page is
  empty; no earlier results page was such. Then \<open>_fetch_results\<close> returns, with the results
  accumulated so far followed by this page's items, whatever the rest of the script
  (\<open>later\<close>) holds: no later page, and so no later total, is read.
\<close>

theorem polling_stops_at_first_final_page:
  assumes "polls_through script 0 []
             ((elapsed, Response 200 body_text (Inr data)) # later) offset fetched"
    and "elapsed \<le> 600"
    and "results_page data items reported"
    and "real (offset + 100) \<ge> reported \<or> items = []"
  shows "fst (fetch_results job_id script) = Some (Inr (fetched @ items))"
proof -
  have "fst (fetch_results job_id script)
      = fst (fetch_loop job_id ((elapsed, Response 200 body_text (Inr data)) # later)
               offset fetched)"
    unfolding fetch_results_def by (rule fetch_loop_polls_through[OF assms(1)])
  also have "\<dots> = Some (Inr (fetched @ items))"
    using assms(2,4) by (auto simp add: poll_step_results[OF assms(3)])
  finally show ?thesis .
qed

text \<open>
  One poll in progress, a first page of a reported 150 results, a second page at offset 100
  (where 200 reaches 150), and a further page that reports 900: the loop returns the items
  of the two pages and never reads the last one.
\<close>

theorem polling_stops_at_first_final_page_witness:
  "fst (fetch_results (JStr ''v1'')
     [(0, Response 200 '''' (Inr (JDict [(''status'', JStr ''IN_PROGRESS'')]))),
      (61, Response 200 '''' (Inr (JDict [(''data'', JList [JStr ''a'']),
             (''metadata'', JDict [(''total_results'', JInt 150)])]))),
      (62, Response 200 '''' (Inr (JDict [(''data'', JList [JStr ''b'']),
             (''metadata'', JDict [(''total_results'', JInt 150)])]))),
      (63, Response 200 '''' (Inr (JDict [(''data'', JList [JStr ''c'']),
             (''metadata'', JDict [(''total_results'', JInt 900)])])))])
   = Some (Inr [JStr ''a'', JStr ''b''])"
proof -
  let ?p0 = "(0::real, Response 200 '''' (Inr (JDict [(''status'', JStr ''IN_PROGRESS'')])))"
  let ?d1 = "JDict [(''data'', JList [JStr ''a'']),
             (''metadata'', JDict [(''total_results'', JInt 150)])]"
  let ?d2 = "JDict [(''data'', JList [JStr ''b'']),
             (''metadata'', JDict [(''total_results'', JInt 150)])]"
  let ?later = "[(63::real, Response 200 '''' (Inr (JDict [(''data'', JList [JStr ''c'']),
             (''metadata'', JDict [(''total_results'', JInt 900)])])))]"
  have r1: "results_page ?d1 [JStr ''a''] 150"
    by (simp add: results_page_def dict_get_def)
  have r2: "results_page ?d2 [JStr ''b''] 150"
    by (simp add: results_page_def dict_get_def)
  have "polls_through ((62, Response 200 '''' (Inr ?d2)) # ?later) (0 + 100) ([] @ [JStr ''a''])
          ((62, Response 200 '''' (Inr ?d2)) # ?later) 100 [JStr ''a'']"
    using polls_through.here[of "(62, Response 200 '''' (Inr ?d2)) # ?later" 100 "[JStr ''a'']"]
    by simp
  then have "polls_through ((61, Response 200 '''' (Inr ?d1)) # (62, Response 200 '''' (Inr ?d2)) # ?later)
          0 [] ((62, Response 200 '''' (Inr ?d2)) # ?later) 100 [JStr ''a'']"
    by (rule polls_through.next_page[OF _ r1, rotated 3]) simp_all
  then have "polls_through (?p0 # (61, Response 200 '''' (Inr ?d1))
            # (62, Response 200 '''' (Inr ?d2)) # ?later)
          0 [] ((62, Response 200 '''' (Inr ?d2)) # ?later) 100 [JStr ''a'']"
    by (rule polls_through.waiting[rotated 2]) (simp_all add: in_progress_page_def dict_get_def)
  from polling_stops_at_first_final_page[OF this _ r2, of "JStr ''v1''"]
  show ?thesis by simp
qed

section \<open>Properties of the importer\<close>

declare import_batches.simps [simp del]

lemma multi_status_reconciled:
  assumes "reconciled_multi_status n result"
  shows "multi_status result c s = ((c', s'), raised) \<Longrightarrow>
           \<not> raised \<and> c' + s' = c + s + n"
  using assms
  by (auto simp: reconciled_multi_status_def multi_status_def dict_get_def log_first_errors_def
      split: json.splits option.splits)

text \<open>One batch adds its size to the sum of the two counters.\<close>

lemma post_batch_total:
  assumes "\<And>t result. outcome = Response 207 t (Inr result) \<Longrightarrow>
             reconciled_multi_status n result"
    and "post_batch outcome n c s = (c', s')"
  shows "c' + s' = c + s + n"
proof (cases outcome)
  case (RequestException m)
  with assms(2) show ?thesis by (auto simp: post_batch_def)
next
  case (Response code t body)
  show ?thesis
  proof (cases "code = 207")
    case False
    with Response assms(2) show ?thesis by (auto simp: post_batch_def split: if_splits)
  next
    case True
    show ?thesis
    proof (cases body)
      case (Inl m)
      with True Response assms(2) show ?thesis by (auto simp: post_batch_def)
    next
      case (Inr result)
      with True Response have rec: "reconciled_multi_status n result" using assms(1) by simp
      obtain c1 s1 raised where ms: "multi_status result c s = ((c1, s1), raised)"
        by (cases "multi_status result c s") auto
      from multi_status_reconciled[OF rec ms]
      have "\<not> raised" and "c1 + s1 = c + s + n" by auto
      with ms Inr True Response assms(2) show ?thesis
        by (auto simp: post_batch_def)
    qed
  qed
qed

lemma import_batches_total:
  assumes "\<And>b t result. 100 * b < length contacts \<Longrightarrow>
             crm (batch_num + b) = Response 207 t (Inr result) \<Longrightarrow>
             reconciled_multi_status (min 100 (length contacts - 100 * b)) result"
  shows "fst (fst (import_batches crm batch_num contacts c s))
           + snd (fst (import_batches crm batch_num contacts c s)) = c + s + length contacts"
  using assms
proof (induction crm batch_num contacts c s rule: import_batches.induct)
  case (1 crm batch_num contacts c s)
  show ?case
  proof (cases "contacts = []")
    case True
    then show ?thesis by (simp add: import_batches.simps)
  next
    case False
    obtain c' s'
      where pb: "post_batch (crm batch_num) (length (take 100 contacts)) c s = (c', s')"
      by (cases "post_batch (crm batch_num) (length (take 100 contacts)) c s") auto
    have step: "c' + s' = c + s + length (take 100 contacts)"
    proof (rule post_batch_total[OF _ pb])
      fix t result assume "crm batch_num = Response 207 t (Inr result)"
      with "1.prems"[of 0 t result] False
      show "reconciled_multi_status (length (take 100 contacts)) result"
        by (simp add: min.commute)
    qed
    have rest: "fst (fst (import_batches crm (batch_num + 1) (drop 100 contacts) c' s'))
           + snd (fst (import_batches crm (batch_num + 1) (drop 100 contacts) c' s'))
           = c' + s' + length (drop 100 contacts)"
    proof (rule "1.IH"[OF False refl refl pb[symmetric]])
      fix b t result
      assume "100 * b < length (drop 100 contacts)"
        and "crm (batch_num + 1 + b) = Response 207 t (Inr result)"
      with "1.prems"[of "Suc b" t result]
      show "reconciled_multi_status (min 100 (length (drop 100 contacts) - 100 * b)) result"
        by (simp add: algebra_simps)
    qed
    from False pb rest step show ?thesis
      by (subst (1 2) import_batches.simps) (auto simp: Let_def split: prod.splits)
  qed
qed

text \<open>The batches only call the CRM and sleep.\<close>

lemma import_batches_events:
  "ev \<in> set (snd (import_batches crm batch_num contacts c s)) \<Longrightarrow>
     \<not> is_vendor_call ev \<and> (\<forall>k ttl d. ev \<noteq> RedisSetex k ttl d)"
proof (induction crm batch_num contacts c s rule: import_batches.induct)
  case (1 crm batch_num contacts c s)
  show ?case
  proof (cases "contacts = []")
    case True
    with "1.prems" show ?thesis by (simp add: import_batches.simps)
  next
    case False
    obtain c' s'
      where pb: "post_batch (crm batch_num) (length (take 100 contacts)) c s = (c', s')"
      by (cases "post_batch (crm batch_num) (length (take 100 contacts)) c s") auto
    from "1.prems" False pb
    have "ev = CrmBatchCreate (take 100 contacts) \<or> ev = Sleep 500
        \<or> ev \<in> set (snd (import_batches crm (batch_num + 1) (drop 100 contacts) c' s'))"
      by (subst (asm) import_batches.simps) (auto simp: Let_def split: prod.splits if_splits)
    with "1.IH"[OF False refl refl pb[symmetric]] show ?thesis by auto
  qed
qed

lemma bio_property_importable: "importable p \<Longrightarrow> \<exists>bio. bio_property p = Inr bio"
  by (auto simp: importable_def bio_property_def dict_get_def split: json.splits option.splits)

lemma prepare_contact_importable:
  "importable p \<Longrightarrow> \<exists>c. prepare_contact job_id now p = Inr c"
  using bio_property_importable[of p]
  by (auto simp: prepare_contact_def importable_def split: option.splits)

lemma prepare_contacts_importable:
  "\<forall>p\<in>set profiles. importable p \<Longrightarrow>
     \<exists>contacts. prepare_contacts job_id clk i profiles = Inr contacts
        \<and> length contacts = length profiles"
proof (induction profiles arbitrary: i)
  case Nil
  then show ?case by simp
next
  case (Cons p ps)
  from Cons.prems obtain c where c: "prepare_contact job_id (clk i) p = Inr c"
    using prepare_contact_importable[of p job_id "clk i"] by auto
  from Cons.IH[of "Suc i"] Cons.prems obtain cs
    where "prepare_contacts job_id clk (Suc i) ps = Inr cs" "length cs = length ps" by auto
  with c show ?case by simp
qed

text \<open>Every profile the standardizer of discovery\_module.py emits has a profile URL.\<close>

lemma fold_update_keeps:
  "map_of base k \<noteq> None \<Longrightarrow>
     \<exists>y. map_of (fold (\<lambda>kv. AList.update (fst kv) (snd kv)) xs base) k = Some y"
  by (induction xs arbitrary: base) (auto simp: update_conv')

lemma standardize_profile_has_url:
  assumes "standardize_profile platform raw = Inr sp"
  shows "map_of sp ''profile_url'' \<noteq> None"
  using assms
  by (auto simp: standardize_profile_def Let_def split: sum.splits json.splits
      intro!: fold_update_keeps)

text \<open>
  C1, as the code has it. With the CRM key configured and every profile importable, the
  import returns its counters; if moreover every 207 body reconciles with its batch (the
  \<open>results\<close> and \<open>errors\<close> lists together number the batch's contacts, the logged errors being
  objects), then created + skipped is the number of profiles submitted, whatever mixture of
  201, 207, other statuses and transport failures the batches meet. Batch \<open>Suc b\<close> exists when
  \<open>100 * b < length profiles\<close> and holds \<open>min 100 (length profiles - 100 * b)\<close> contacts.
\<close>

theorem import_counts_every_profile:
  assumes "api_key \<noteq> None" and "api_key \<noteq> Some ''''"
    and "\<forall>profile\<in>set profiles. importable profile"
    and "\<forall>b t result. 100 * b < length profiles \<longrightarrow>
           crm (Suc b) = Response 207 t (Inr result) \<longrightarrow>
           reconciled_multi_status (min 100 (length profiles - 100 * b)) result"
  shows "\<exists>counts events.
           import_profiles_to_hubspot api_key clk crm profiles job_id = (Inr counts, events)
           \<and> created counts + skipped counts = length profiles"
proof -
  from prepare_contacts_importable[OF assms(3)] obtain contacts
    where pc: "prepare_contacts job_id clk 0 profiles = Inr contacts"
      and len: "length contacts = length profiles" by blast
  have "fst (fst (import_batches crm 1 contacts 0 0))
           + snd (fst (import_batches crm 1 contacts 0 0)) = 0 + 0 + length contacts"
    by (rule import_batches_total) (use assms(4) len in auto)
  with assms(1,2) pc len show ?thesis
    by (auto simp: import_profiles_to_hubspot_def split: prod.splits)
qed

text \<open>
  Three profiles in one batch, answered 207 with two results and one error: two created,
  one skipped.
\<close>

theorem import_counts_every_profile_witness:
  "fst (import_profiles_to_hubspot (Some ''key'') (\<lambda>i. ''2026-01-01T00:00:00'')
       (\<lambda>b. Response 207 ''''
          (Inr (JDict [(''results'', JList [JDict [], JDict []]),
                       (''errors'', JList [JDict [(''message'', JStr ''duplicate'')]])])))
       [[(''profile_url'', JStr ''u1'')], [(''profile_url'', JStr ''u2'')],
        [(''profile_url'', JStr ''u3'')]] ''j1'')
     = Inr \<lparr>created = 2, skipped = 1\<rparr>"
proof -
  let ?crm = "\<lambda>b::nat. Response 207 ''''
          (Inr (JDict [(''results'', JList [JDict [], JDict []]),
                       (''errors'', JList [JDict [(''message'', JStr ''duplicate'')]])]))"
  let ?profiles = "[[(''profile_url'', JStr ''u1'')], [(''profile_url'', JStr ''u2'')],
        [(''profile_url'', JStr ''u3'')]] :: dict list"
  have imp: "\<forall>profile\<in>set ?profiles. importable profile"
    by (simp add: importable_def dict_get_def)
  have rec: "\<forall>b t result. 100 * b < length ?profiles \<longrightarrow>
           ?crm (Suc b) = Response 207 t (Inr result) \<longrightarrow>
           reconciled_multi_status (min 100 (length ?profiles - 100 * b)) result"
  proof (intro allI impI)
    fix b :: nat and t result
    assume "100 * b < length ?profiles" and "?crm (Suc b) = Response 207 t (Inr result)"
    then have "b = 0" and "result = JDict [(''results'', JList [JDict [], JDict []]),
                       (''errors'', JList [JDict [(''message'', JStr ''duplicate'')]])]"
      by auto
    then show "reconciled_multi_status (min 100 (length ?profiles - 100 * b)) result"
      by (simp add: reconciled_multi_status_def dict_get_def)
  qed
  from import_counts_every_profile
    [of "Some ''key''" ?profiles ?crm "\<lambda>i. ''2026-01-01T00:00:00''" "''j1''", OF _ _ imp rec]
  obtain counts events where
    run: "import_profiles_to_hubspot (Some ''key'') (\<lambda>i. ''2026-01-01T00:00:00'') ?crm
            ?profiles ''j1'' = (Inr counts, events)"
    and total_count: "created counts + skipped counts = 3" by auto
  have "fst (import_profiles_to_hubspot (Some ''key'') (\<lambda>i. ''2026-01-01T00:00:00'') ?crm
            ?profiles ''j1'') = Inr \<lparr>created = 2, skipped = 1\<rparr>"
    by (simp add: import_profiles_to_hubspot_def prepare_contact_def bio_property_def
        dict_get_def import_batches.simps post_batch_def multi_status_def
        log_first_errors_def py_endswith_def)
  with run total_count show ?thesis by simp
qed

text \<open>
  The claim as written fails on a 207 body that does not reconcile: two profiles in one
  batch, answered 207 with one result and no error, give created = 1 and skipped = 0.
\<close>

theorem import_multi_status_undercounts:
  "fst (import_profiles_to_hubspot (Some ''key'') (\<lambda>i. ''2026-01-01T00:00:00'')
       (\<lambda>b. Response 207 '''' (Inr (JDict [(''results'', JList [JDict []])])))
       [[(''profile_url'', JStr ''u1'')], [(''profile_url'', JStr ''u2'')]] ''j1'')
     = Inr \<lparr>created = 1, skipped = 0\<rparr>"
  by (simp add: import_profiles_to_hubspot_def prepare_contact_def bio_property_def
      dict_get_def import_batches.simps post_batch_def multi_status_def
      log_first_errors_def py_endswith_def)

text \<open>
  Two more ways the sum can differ from the number of profiles. Without the CRM key the
  import raises before it counts anything. And a 207 body whose errors are not objects
  raises while the errors are logged, after both counters were updated, so the batch is
  added to the skipped counter a second time.
\<close>

lemma import_without_key:
  "import_profiles_to_hubspot None clk crm profiles job_id
     = (Inl (ValueError ''HUBSPOT_API_KEY must be set in environment''), [])"
  by (simp add: import_profiles_to_hubspot_def)

lemma import_multi_status_double_counts:
  "fst (import_profiles_to_hubspot (Some ''key'') (\<lambda>i. ''2026-01-01T00:00:00'')
       (\<lambda>b. Response 207 '''' (Inr (JDict [(''errors'', JList [JStr ''duplicate''])])))
       [[(''profile_url'', JStr ''u1'')]] ''j1'')
     = Inr \<lparr>created = 0, skipped = 2\<rparr>"
  by (simp add: import_profiles_to_hubspot_def prepare_contact_def bio_property_def
      dict_get_def import_batches.simps post_batch_def multi_status_def
      log_first_errors_def py_endswith_def)

section \<open>Properties of the orchestrator\<close>

lemma trace_emit [simp]: "trace (emit events w) = trace w @ events"
  and store_emit [simp]: "store (emit events w) = store w"
  by (simp_all add: emit_def)

lemma trace_set_status [simp]:
  "trace (set_status e job_id status kwargs w) =
     trace w @ [RedisSetex (job_key job_id) 86400
                  (updated_job_data (clock e (length (trace w))) job_id status kwargs (store w))]"
  and store_set_status [simp]:
  "store (set_status e job_id status kwargs w) =
     update_discovery_job_status (clock e (length (trace w))) job_id status kwargs (store w)"
  by (simp_all add: set_status_def Let_def)

lemma updated_job_data_status:
  "''status'' \<notin> fst ` set kwargs \<Longrightarrow>
     map_of (updated_job_data now job_id status kwargs r) ''status'' = Some status"
  by (simp add: updated_job_data_def Let_def fold_update_other update_conv')

lemma updated_job_data_error:
  "map_of (updated_job_data now job_id status [(''error'', v)] r) ''error'' = Some v"
  by (simp add: updated_job_data_def Let_def update_conv')

text \<open>The \<open>except\<close> clause: what the \<open>try\<close> block raises is recorded, then raised again.\<close>

lemma discover_raises:
  assumes "discovery_try e user_filters (effective_job_id e job_id_arg) w
             = (Some (Inl err), w')"
  shows "discover_instagram_profiles e user_filters job_id_arg w =
     (Some (Inl err),
      set_status e (effective_job_id e job_id_arg) (JStr ''failed'')
        [(''error'', JStr (error_text err))] w')"
  using assms by (simp add: discover_instagram_profiles_def Let_def)

lemma failed_record:
  "\<exists>d. store (set_status e job_id (JStr ''failed'') [(''error'', JStr msg)] w') (job_key job_id)
         = Some (86400, d)
       \<and> map_of d ''status'' = Some (JStr ''failed'')
       \<and> map_of d ''error'' = Some (JStr msg)"
  by (simp add: update_discovery_job_status_def updated_job_data_status updated_job_data_error)

lemma discovery_try_validation_fails:
  assumes "validate_filters e user_filters = Inl err"
  shows "discovery_try e user_filters job_id w =
     (Some (Inl err), set_status e job_id (JStr ''discovering'') [] w)"
  using assms by (simp add: discovery_try_def Let_def)

lemma discovery_try_first_write:
  "\<exists>rest. trace (snd (discovery_try e user_filters job_id w)) =
     trace w @ RedisSetex (job_key job_id) 86400
        (updated_job_data (clock e (length (trace w))) job_id (JStr ''discovering'') [] (store w))
       # rest"
  by (auto simp: discovery_try_def Let_def split: sum.splits prod.splits option.splits)

lemma discover_first_write:
  "\<exists>rest. trace (snd (discover_instagram_profiles e user_filters job_id_arg w)) =
     trace w @ RedisSetex (job_key (effective_job_id e job_id_arg)) 86400
        (updated_job_data (clock e (length (trace w)))
           (effective_job_id e job_id_arg) (JStr ''discovering'') [] (store w))
       # rest"
proof -
  let ?j = "effective_job_id e job_id_arg"
  from discovery_try_first_write[of e user_filters ?j w] obtain rest where
    r: "trace (snd (discovery_try e user_filters ?j w)) =
     trace w @ RedisSetex (job_key ?j) 86400
        (updated_job_data (clock e (length (trace w))) ?j (JStr ''discovering'') [] (store w))
       # rest" by blast
  show ?thesis
  proof (cases "discovery_try e user_filters ?j w")
    case (Pair res w')
    with r show ?thesis
      by (cases res) (auto simp: discover_instagram_profiles_def Let_def split: sum.splits)
  qed
qed

subsection \<open>Order of the status writes\<close>

text \<open>
  C10. Whatever the inputs, the first effect of a run of the task is the write of a record
  with status \<open>discovering\<close> under the job's key; the validation of lines 49-64 comes after
  it in the \<open>try\<close> block and has no effect of its own. So when that validation fails, the
  run makes exactly two writes, \<open>discovering\<close> and then \<open>failed\<close>, and raises the
  validation's error.
\<close>

theorem discovering_written_before_validation:
  "(\<exists>d rest.
      trace (snd (discover_instagram_profiles e user_filters job_id_arg w)) =
        trace w @ RedisSetex (job_key (effective_job_id e job_id_arg)) 86400 d # rest
      \<and> map_of d ''status'' = Some (JStr ''discovering''))
   \<and> (validate_filters e user_filters = Inl err \<longrightarrow>
        (\<exists>d1 d2.
           fst (discover_instagram_profiles e user_filters job_id_arg w) = Some (Inl err)
           \<and> trace (snd (discover_instagram_profiles e user_filters job_id_arg w)) =
               trace w @ [RedisSetex (job_key (effective_job_id e job_id_arg)) 86400 d1,
                          RedisSetex (job_key (effective_job_id e job_id_arg)) 86400 d2]
           \<and> map_of d1 ''status'' = Some (JStr ''discovering'')
           \<and> map_of d2 ''status'' = Some (JStr ''failed'')))"
proof (intro conjI impI)
  from discover_first_write[of e user_filters job_id_arg w]
  show "\<exists>d rest.
      trace (snd (discover_instagram_profiles e user_filters job_id_arg w)) =
        trace w @ RedisSetex (job_key (effective_job_id e job_id_arg)) 86400 d # rest
      \<and> map_of d ''status'' = Some (JStr ''discovering'')"
    using updated_job_data_status[of "[]"] by fastforce
next
  assume "validate_filters e user_filters = Inl err"
  from discover_raises[OF discovery_try_validation_fails[OF this]]
  show "\<exists>d1 d2.
           fst (discover_instagram_profiles e user_filters job_id_arg w) = Some (Inl err)
           \<and> trace (snd (discover_instagram_profiles e user_filters job_id_arg w)) =
               trace w @ [RedisSetex (job_key (effective_job_id e job_id_arg)) 86400 d1,
                          RedisSetex (job_key (effective_job_id e job_id_arg)) 86400 d2]
           \<and> map_of d1 ''status'' = Some (JStr ''discovering'')
           \<and> map_of d2 ''status'' = Some (JStr ''failed'')"
    by (simp add: updated_job_data_status)
qed

text \<open>
  A creator lookalike without a handle, on a job queued under \<open>j1\<close>: the record goes
  queued, discovering, failed.
\<close>

theorem discovering_written_before_validation_witness:
  "trace (snd (discover_instagram_profiles
     \<lparr>INSIGHTIQ_CLIENT_ID = Some ''id'', INSIGHTIQ_SECRET = Some ''secret'',
      HUBSPOT_API_KEY = Some ''key'', request_id = ''req1'',
      clock = (\<lambda>n. ''2026-01-01T00:00:00''),
      submit_response = RequestException ''unreachable'',
      poll_script = [],
      crm_response = (\<lambda>b. RequestException ''unreachable'')\<rparr>
     (JDict [(''lookalike_type'', JStr ''creator'')]) (Some ''j1'')
     \<lparr>store = Map.empty(''discovery_job:j1'' :=
                Some (86400, [(''job_id'', JStr ''j1''), (''status'', JStr ''queued'')])),
      trace = []\<rparr>))
   = [RedisSetex ''discovery_job:j1'' 86400
        [(''job_id'', JStr ''j1''), (''status'', JStr ''discovering''),
         (''updated_at'', JStr ''2026-01-01T00:00:00'')],
      RedisSetex ''discovery_job:j1'' 86400
        [(''job_id'', JStr ''j1''), (''status'', JStr ''failed''),
         (''updated_at'', JStr ''2026-01-01T00:00:00''),
         (''error'', JStr ''lookalike_username required when lookalike_type is set'')]]"
proof -
  let ?e = "\<lparr>INSIGHTIQ_CLIENT_ID = Some ''id'', INSIGHTIQ_SECRET = Some ''secret'',
      HUBSPOT_API_KEY = Some ''key'', request_id = ''req1'',
      clock = (\<lambda>n::nat. ''2026-01-01T00:00:00''),
      submit_response = RequestException ''unreachable'',
      poll_script = [],
      crm_response = (\<lambda>b::nat. RequestException ''unreachable'')\<rparr>"
  let ?err = "ValueError ''lookalike_username required when lookalike_type is set''"
  have v: "validate_filters ?e (JDict [(''lookalike_type'', JStr ''creator'')]) = Inl ?err"
    by (simp add: validate_filters_def unset_def filters_or_empty_def py_or_def Let_def
        py_strip_def)
  have run: "discover_instagram_profiles ?e
        (JDict [(''lookalike_type'', JStr ''creator'')]) (Some ''j1'')
        \<lparr>store = Map.empty(''discovery_job:j1'' :=
                Some (86400, [(''job_id'', JStr ''j1''), (''status'', JStr ''queued'')])),
         trace = []\<rparr>
      = (Some (Inl ?err),
         set_status ?e ''j1'' (JStr ''failed'') [(''error'', JStr (error_text ?err))]
           (set_status ?e ''j1'' (JStr ''discovering'') []
              \<lparr>store = Map.empty(''discovery_job:j1'' :=
                Some (86400, [(''job_id'', JStr ''j1''), (''status'', JStr ''queued'')])),
               trace = []\<rparr>))"
    using discover_raises[OF discovery_try_validation_fails[OF v], of "Some ''j1''"]
    by (simp add: effective_job_id_def)
  from discovering_written_before_validation
      [of ?e "JDict [(''lookalike_type'', JStr ''creator'')]" "Some ''j1''"
        "\<lparr>store = Map.empty(''discovery_job:j1'' :=
                Some (86400, [(''job_id'', JStr ''j1''), (''status'', JStr ''queued'')])),
          trace = []\<rparr>" ?err] v
  show ?thesis
    by (simp add: run updated_job_data_def update_discovery_job_status_def job_key_def
        effective_job_id_def)
qed

subsection \<open>Lookalike validation\<close>

lemma validate_rejects_blank_handle:
  assumes "py_truthy (dict_get uf ''lookalike_type'' JNull)" and "lookalike_handle_blank uf"
  shows "\<exists>err. validate_filters e (JDict uf) = Inl err"
proof -
  from assms(1) have "uf \<noteq> []" by (auto simp: dict_get_def)
  then have f: "filters_or_empty (JDict uf) = JDict uf"
    by (simp add: filters_or_empty_def py_or_def)
  from assms show ?thesis
    by (auto simp: validate_filters_def f Let_def lookalike_handle_blank_def dict_get_def
        split: json.splits option.splits sum.splits)
qed

text \<open>
  C4, as the code has it. For every filter set whose lookalike type is set (truthy) while the
  handle is blank (missing, null or only whitespace), the validation block raises, the run
  makes two store writes and nothing else (so no vendor call), the error is raised to the
  caller, and the job's record ends with status \<open>failed\<close> and the error's text.
\<close>

theorem blank_handle_fails_before_vendor_call:
  assumes "py_truthy (dict_get uf ''lookalike_type'' JNull)" and "lookalike_handle_blank uf"
  shows "\<exists>err d1 d2.
     validate_filters e (JDict uf) = Inl err
     \<and> fst (discover_instagram_profiles e (JDict uf) job_id_arg w) = Some (Inl err)
     \<and> trace (snd (discover_instagram_profiles e (JDict uf) job_id_arg w)) =
         trace w @ [RedisSetex (job_key (effective_job_id e job_id_arg)) 86400 d1,
                    RedisSetex (job_key (effective_job_id e job_id_arg)) 86400 d2]
     \<and> store (snd (discover_instagram_profiles e (JDict uf) job_id_arg w))
           (job_key (effective_job_id e job_id_arg)) = Some (86400, d2)
     \<and> map_of d2 ''status'' = Some (JStr ''failed'')
     \<and> map_of d2 ''error'' = Some (JStr (error_text err))"
proof -
  from validate_rejects_blank_handle[OF assms] obtain err
    where v: "validate_filters e (JDict uf) = Inl err" by blast
  from discover_raises[OF discovery_try_validation_fails[OF v]] v
  show ?thesis
    by (simp add: update_discovery_job_status_def updated_job_data_status updated_job_data_error)
qed

text \<open>
  An audience lookalike whose handle is two spaces: the run raises the validation error and
  its whole trace is the two writes.
\<close>

theorem blank_handle_fails_before_vendor_call_witness:
  "fst (discover_instagram_profiles
     \<lparr>INSIGHTIQ_CLIENT_ID = Some ''id'', INSIGHTIQ_SECRET = Some ''secret'',
      HUBSPOT_API_KEY = Some ''key'', request_id = ''req1'',
      clock = (\<lambda>n. ''2026-01-01T00:00:00''),
      submit_response = Response 200 '''' (Inr (JDict [(''id'', JStr ''v1'')])),
      poll_script = [(0, Response 200 '''' (Inr (JDict [(''data'', JList [])])))],
      crm_response = (\<lambda>b. Response 201 '''' (Inl ''''))\<rparr>
     (JDict [(''lookalike_type'', JStr ''audience''), (''lookalike_username'', JStr ''  '')])
     None \<lparr>store = Map.empty, trace = []\<rparr>)
   = Some (Inl (ValueError ''lookalike_username required when lookalike_type is set''))
   \<and> filter is_vendor_call (trace (snd (discover_instagram_profiles
     \<lparr>INSIGHTIQ_CLIENT_ID = Some ''id'', INSIGHTIQ_SECRET = Some ''secret'',
      HUBSPOT_API_KEY = Some ''key'', request_id = ''req1'',
      clock = (\<lambda>n. ''2026-01-01T00:00:00''),
      submit_response = Response 200 '''' (Inr (JDict [(''id'', JStr ''v1'')])),
      poll_script = [(0, Response 200 '''' (Inr (JDict [(''data'', JList [])])))],
      crm_response = (\<lambda>b. Response 201 '''' (Inl ''''))\<rparr>
     (JDict [(''lookalike_type'', JStr ''audience''), (''lookalike_username'', JStr ''  '')])
     None \<lparr>store = Map.empty, trace = []\<rparr>))) = []"
proof -
  let ?e = "\<lparr>INSIGHTIQ_CLIENT_ID = Some ''id'', INSIGHTIQ_SECRET = Some ''secret'',
      HUBSPOT_API_KEY = Some ''key'', request_id = ''req1'',
      clock = (\<lambda>n::nat. ''2026-01-01T00:00:00''),
      submit_response = Response 200 '''' (Inr (JDict [(''id'', JStr ''v1'')])),
      poll_script = [(0, Response 200 '''' (Inr (JDict [(''data'', JList [])])))],
      crm_response = (\<lambda>b::nat. Response 201 '''' (Inl ''''))\<rparr>"
  let ?uf = "[(''lookalike_type'', JStr ''audience''), (''lookalike_username'', JStr ''  '')]"
  have t: "py_truthy (dict_get ?uf ''lookalike_type'' JNull)"
    by (simp add: dict_get_def)
  have b: "lookalike_handle_blank ?uf"
    by (simp add: lookalike_handle_blank_def dict_get_def py_strip_def py_isspace_def)
  have v: "validate_filters ?e (JDict ?uf)
      = Inl (ValueError ''lookalike_username required when lookalike_type is set'')"
    by (simp add: validate_filters_def unset_def filters_or_empty_def py_or_def Let_def
        py_strip_def py_isspace_def)
  from blank_handle_fails_before_vendor_call
      [OF t b, of ?e None "\<lparr>store = Map.empty, trace = []\<rparr>"] v
  show ?thesis by auto
qed

lemma build_parameters_handle_only:
  "build_parameters ''instagram'' (JDict [(''lookalike_username'', JStr ''nasa'')])
     = Inr (FIXED_PARAMS @
           [(''work_platform_id'', JStr ''9bb8913b-ddd9-430b-a66a-d74d846e6c66''),
            (''max_results'', JInt 500),
            (''follower_count'', JDict [(''min'', JInt 20000), (''max'', JInt 900000)])])"
  by (simp add: build_parameters_def PLATFORM_CONFIGS_def FIXED_PARAMS_def dict_get_def
      filters_or_empty_def py_or_def py_min_int_def py_strip_def py_isspace_def
      add_lookalike_def add_optional_def Let_def)

lemma search_handle_only:
  "search_profiles (Response 200 '''' (Inr (JDict [(''id'', JStr ''v1'')])))
     [(0, Response 200 '''' (Inr (JDict [(''data'', JList [])])))] ''instagram''
     (JDict [(''lookalike_username'', JStr ''nasa'')])
   = (Some (Inr []),
      [VendorSubmit (FIXED_PARAMS @
           [(''work_platform_id'', JStr ''9bb8913b-ddd9-430b-a66a-d74d846e6c66''),
            (''max_results'', JInt 500),
            (''follower_count'', JDict [(''min'', JInt 20000), (''max'', JInt 900000)])]),
       VendorPoll (JStr ''v1'') 0 100])"
  by (simp add: search_profiles_def build_parameters_handle_only start_job_def
      fetch_results_def poll_step_def read_page_def got_all_def py_int_ge_def dict_get_def)

text \<open>
  The other half of the claim fails: a handle supplied without a lookalike type passes the
  validation, the job is submitted to the vendor, and the request parameters carry no
  lookalike at all; the run completes.
\<close>

theorem handle_without_type_is_dropped:
  "validate_filters
     \<lparr>INSIGHTIQ_CLIENT_ID = Some ''id'', INSIGHTIQ_SECRET = Some ''secret'',
      HUBSPOT_API_KEY = Some ''key'', request_id = ''req1'',
      clock = (\<lambda>n. ''2026-01-01T00:00:00''),
      submit_response = Response 200 '''' (Inr (JDict [(''id'', JStr ''v1'')])),
      poll_script = [(0, Response 200 '''' (Inr (JDict [(''data'', JList [])])))],
      crm_response = (\<lambda>b. Response 201 '''' (Inl ''''))\<rparr>
     (JDict [(''lookalike_username'', JStr ''nasa'')])
     = Inr (JDict [(''lookalike_username'', JStr ''nasa'')])
   \<and> fst (discover_instagram_profiles
     \<lparr>INSIGHTIQ_CLIENT_ID = Some ''id'', INSIGHTIQ_SECRET = Some ''secret'',
      HUBSPOT_API_KEY = Some ''key'', request_id = ''req1'',
      clock = (\<lambda>n. ''2026-01-01T00:00:00''),
      submit_response = Response 200 '''' (Inr (JDict [(''id'', JStr ''v1'')])),
      poll_script = [(0, Response 200 '''' (Inr (JDict [(''data'', JList [])])))],
      crm_response = (\<lambda>b. Response 201 '''' (Inl ''''))\<rparr>
     (JDict [(''lookalike_username'', JStr ''nasa'')]) None
     \<lparr>store = Map.empty, trace = []\<rparr>)
     = Some (Inr [(''status'', JStr ''completed''), (''profiles_found'', JInt 0),
                  (''new_contacts'', JInt 0), (''duplicates'', JInt 0)])
   \<and> filter is_vendor_call (trace (snd (discover_instagram_profiles
     \<lparr>INSIGHTIQ_CLIENT_ID = Some ''id'', INSIGHTIQ_SECRET = Some ''secret'',
      HUBSPOT_API_KEY = Some ''key'', request_id = ''req1'',
      clock = (\<lambda>n. ''2026-01-01T00:00:00''),
      submit_response = Response 200 '''' (Inr (JDict [(''id'', JStr ''v1'')])),
      poll_script = [(0, Response 200 '''' (Inr (JDict [(''data'', JList [])])))],
      crm_response = (\<lambda>b. Response 201 '''' (Inl ''''))\<rparr>
     (JDict [(''lookalike_username'', JStr ''nasa'')]) None
     \<lparr>store = Map.empty, trace = []\<rparr>)))
     = [VendorSubmit
          (FIXED_PARAMS @
           [(''work_platform_id'', JStr ''9bb8913b-ddd9-430b-a66a-d74d846e6c66''),
            (''max_results'', JInt 500),
            (''follower_count'', JDict [(''min'', JInt 20000), (''max'', JInt 900000)])]),
        VendorPoll (JStr ''v1'') 0 100]"
proof -
  let ?e = "\<lparr>INSIGHTIQ_CLIENT_ID = Some ''id'', INSIGHTIQ_SECRET = Some ''secret'',
      HUBSPOT_API_KEY = Some ''key'', request_id = ''req1'',
      clock = (\<lambda>n::nat. ''2026-01-01T00:00:00''),
      submit_response = Response 200 '''' (Inr (JDict [(''id'', JStr ''v1'')])),
      poll_script = [(0, Response 200 '''' (Inr (JDict [(''data'', JList [])])))],
      crm_response = (\<lambda>b::nat. Response 201 '''' (Inl ''''))\<rparr>"
  have v: "validate_filters ?e (JDict [(''lookalike_username'', JStr ''nasa'')])
      = Inr (JDict [(''lookalike_username'', JStr ''nasa'')])"
    by (simp add: validate_filters_def unset_def filters_or_empty_def py_or_def Let_def
        py_strip_def py_isspace_def)
  have i: "import_profiles_to_hubspot (Some ''key'') clk (\<lambda>b. Response 201 '''' (Inl '''')) []
      ''req1'' = (Inr \<lparr>created = 0, skipped = 0\<rparr>, [])" for clk
    by (simp add: import_profiles_to_hubspot_def import_batches.simps)
  have t: "discovery_try ?e (JDict [(''lookalike_username'', JStr ''nasa'')]) ''req1''
             \<lparr>store = Map.empty, trace = []\<rparr>
      = (Some (Inr [(''status'', JStr ''completed''), (''profiles_found'', JInt 0),
                  (''new_contacts'', JInt 0), (''duplicates'', JInt 0)]),
         set_status ?e ''req1'' (JStr ''completed'')
           [(''profiles_found'', JInt 0), (''new_contacts_created'', JInt 0),
            (''duplicates_skipped'', JInt 0)]
           (set_status ?e ''req1'' (JStr ''importing'') [(''profiles_found'', JInt 0)]
              (emit [VendorSubmit (FIXED_PARAMS @
                       [(''work_platform_id'', JStr ''9bb8913b-ddd9-430b-a66a-d74d846e6c66''),
                        (''max_results'', JInt 500),
                        (''follower_count'',
                           JDict [(''min'', JInt 20000), (''max'', JInt 900000)])]),
                     VendorPoll (JStr ''v1'') 0 100]
                 (set_status ?e ''req1'' (JStr ''discovering'') []
                    \<lparr>store = Map.empty, trace = []\<rparr>))))"
    unfolding discovery_try_def Let_def
    by (simp add: v search_handle_only i emit_def)
  show ?thesis
    by (simp add: v discover_instagram_profiles_def effective_job_id_def t Let_def)
qed

subsection \<open>The deadline\<close>

lemma fetch_results_no_crm:
  "filter is_crm_call (snd (fetch_results job_id script)) = []"
  using fetch_loop_events[of _ job_id script 0 "[]"]
  by (auto simp: fetch_results_def filter_empty_conv)

lemma fetch_results_times_out:
  assumes "polls_through script 0 [] ((elapsed, outcome) # later) offset fetched"
    and "600 < elapsed"
  shows "fst (fetch_results job_id script)
           = Some (Inl (Exception ''Job timeout after 600 seconds''))"
proof -
  have "fst (fetch_results job_id script)
      = fst (fetch_loop job_id ((elapsed, outcome) # later) offset fetched)"
    unfolding fetch_results_def by (rule fetch_loop_polls_through[OF assms(1)])
  also have "\<dots> = Some (Inl (Exception ''Job timeout after 600 seconds''))"
    using assms(2) by simp
  finally show ?thesis .
qed

text \<open>
  C3. Let the loop of \<open>_fetch_results\<close> still be polling, after any number of polls and with
  any results \<open>fetched\<close> so far, when the elapsed time it computes at the top of a pass
  exceeds 600 seconds. Then \<open>_fetch_results\<close> raises the timeout error; the error carries no
  results, so what was fetched is gone. In a run of the task whose validation passed and
  whose job the vendor accepted, that error is the run's outcome, the job's record ends
  with status \<open>failed\<close> and the timeout text, and the run adds no CRM call to the trace.
\<close>

theorem timeout_fails_the_job:
  assumes "polls_through (poll_script e) 0 [] ((elapsed, outcome) # later) offset fetched"
    and "600 < elapsed"
    and "validate_filters e user_filters = Inr filters"
    and "build_parameters ''instagram'' filters = Inr parameters"
    and "fst (start_job (submit_response e) parameters) = Inr vendor_job_id"
  shows "fst (fetch_results vendor_job_id (poll_script e))
           = Some (Inl (Exception ''Job timeout after 600 seconds''))
     \<and> fst (discover_instagram_profiles e user_filters job_id_arg w)
           = Some (Inl (Exception ''Job timeout after 600 seconds''))
     \<and> (\<exists>d. store (snd (discover_instagram_profiles e user_filters job_id_arg w))
                (job_key (effective_job_id e job_id_arg)) = Some (86400, d)
             \<and> map_of d ''status'' = Some (JStr ''failed'')
             \<and> map_of d ''error'' = Some (JStr ''Job timeout after 600 seconds''))
     \<and> filter is_crm_call
           (trace (snd (discover_instagram_profiles e user_filters job_id_arg w)))
           = filter is_crm_call (trace w)"
proof -
  let ?timeout = "Exception ''Job timeout after 600 seconds''"
  let ?j = "effective_job_id e job_id_arg"
  have f: "fst (fetch_results vendor_job_id (poll_script e)) = Some (Inl ?timeout)"
    by (rule fetch_results_times_out[OF assms(1,2)])
  obtain polled
    where p: "fetch_results vendor_job_id (poll_script e) = (Some (Inl ?timeout), polled)"
    using f by (cases "fetch_results vendor_job_id (poll_script e)") auto
  have nocrm: "filter is_crm_call polled = []"
    using fetch_results_no_crm[of vendor_job_id "poll_script e"] p by simp
  have s: "search_profiles (submit_response e) (poll_script e) ''instagram'' filters
             = (Some (Inl ?timeout), VendorSubmit parameters # polled)"
    using assms(4,5) p by (auto simp: search_profiles_def start_job_def split: prod.splits)
  have t: "discovery_try e user_filters ?j w =
      (Some (Inl ?timeout),
       emit (VendorSubmit parameters # polled) (set_status e ?j (JStr ''discovering'') [] w))"
    using assms(3) s by (simp add: discovery_try_def Let_def)
  note d = discover_raises[OF t]
  show ?thesis
    using f nocrm failed_record[of e ?j "''Job timeout after 600 seconds''"
        "emit (VendorSubmit parameters # polled) (set_status e ?j (JStr ''discovering'') [] w)"]
    by (simp add: d)
qed

text \<open>
  A run that waits once, fetches a first page of a reported 500 results, and finds 601
  seconds elapsed at the top of its third pass: the fetched profile is not returned, the job
  fails with the timeout text, and the CRM is never called.
\<close>

theorem timeout_fails_the_job_witness:
  "fst (discover_instagram_profiles
     \<lparr>INSIGHTIQ_CLIENT_ID = Some ''id'', INSIGHTIQ_SECRET = Some ''secret'',
      HUBSPOT_API_KEY = Some ''key'', request_id = ''req1'',
      clock = (\<lambda>n. ''2026-01-01T00:00:00''),
      submit_response = Response 200 '''' (Inr (JDict [(''id'', JStr ''v1'')])),
      poll_script =
        [(0, Response 200 '''' (Inr (JDict [(''status'', JStr ''IN_PROGRESS'')]))),
         (60, Response 200 '''' (Inr (JDict [(''data'', JList [JDict [(''url'', JStr ''u1'')]]),
                (''metadata'', JDict [(''total_results'', JInt 500)])]))),
         (601, Response 200 '''' (Inr (JDict [(''status'', JStr ''IN_PROGRESS'')])))],
      crm_response = (\<lambda>b. Response 201 '''' (Inl ''''))\<rparr>
     (JDict []) None \<lparr>store = Map.empty, trace = []\<rparr>)
   = Some (Inl (Exception ''Job timeout after 600 seconds''))
   \<and> filter is_crm_call (trace (snd (discover_instagram_profiles
     \<lparr>INSIGHTIQ_CLIENT_ID = Some ''id'', INSIGHTIQ_SECRET = Some ''secret'',
      HUBSPOT_API_KEY = Some ''key'', request_id = ''req1'',
      clock = (\<lambda>n. ''2026-01-01T00:00:00''),
      submit_response = Response 200 '''' (Inr (JDict [(''id'', JStr ''v1'')])),
      poll_script =
        [(0, Response 200 '''' (Inr (JDict [(''status'', JStr ''IN_PROGRESS'')]))),
         (60, Response 200 '''' (Inr (JDict [(''data'', JList [JDict [(''url'', JStr ''u1'')]]),
                (''metadata'', JDict [(''total_results'', JInt 500)])]))),
         (601, Response 200 '''' (Inr (JDict [(''status'', JStr ''IN_PROGRESS'')])))],
      crm_response = (\<lambda>b. Response 201 '''' (Inl ''''))\<rparr>
     (JDict []) None \<lparr>store = Map.empty, trace = []\<rparr>))) = []"
proof -
  let ?wait = "Response 200 '''' (Inr (JDict [(''status'', JStr ''IN_PROGRESS'')]))"
  let ?page = "JDict [(''data'', JList [JDict [(''url'', JStr ''u1'')]]),
                (''metadata'', JDict [(''total_results'', JInt 500)])]"
  let ?script = "[(0::real, ?wait), (60, Response 200 '''' (Inr ?page)), (601, ?wait)]"
  let ?e = "\<lparr>INSIGHTIQ_CLIENT_ID = Some ''id'', INSIGHTIQ_SECRET = Some ''secret'',
      HUBSPOT_API_KEY = Some ''key'', request_id = ''req1'',
      clock = (\<lambda>n::nat. ''2026-01-01T00:00:00''),
      submit_response = Response 200 '''' (Inr (JDict [(''id'', JStr ''v1'')])),
      poll_script = ?script,
      crm_response = (\<lambda>b::nat. Response 201 '''' (Inl ''''))\<rparr>"
  have r: "results_page ?page [JDict [(''url'', JStr ''u1'')]] 500"
    by (simp add: results_page_def dict_get_def)
  have "polls_through [(601::real, ?wait)] (0 + 100) ([] @ [JDict [(''url'', JStr ''u1'')]])
          [(601, ?wait)] 100 [JDict [(''url'', JStr ''u1'')]]"
    using polls_through.here[of "[(601::real, ?wait)]" 100 "[JDict [(''url'', JStr ''u1'')]]"]
    by simp
  then have "polls_through [(60, Response 200 '''' (Inr ?page)), (601, ?wait)] 0 []
          [(601, ?wait)] 100 [JDict [(''url'', JStr ''u1'')]]"
    by (rule polls_through.next_page[OF _ r, rotated 3]) simp_all
  then have "polls_through ?script 0 [] [(601, ?wait)] 100 [JDict [(''url'', JStr ''u1'')]]"
    by (rule polls_through.waiting[rotated 2]) (simp_all add: in_progress_page_def dict_get_def)
  then have p: "polls_through (poll_script ?e) 0 [] [(601, ?wait)] 100
                  [JDict [(''url'', JStr ''u1'')]]"
    by simp
  have v: "validate_filters ?e (JDict []) = Inr (JDict [])"
    by (simp add: validate_filters_def unset_def filters_or_empty_def py_or_def Let_def
        py_strip_def)
  have b: "\<exists>parameters. build_parameters ''instagram'' (JDict []) = Inr parameters"
    by (simp add: build_parameters_def PLATFORM_CONFIGS_def dict_get_def
        filters_or_empty_def py_or_def py_min_int_def py_strip_def Let_def)
  then obtain parameters where b: "build_parameters ''instagram'' (JDict []) = Inr parameters" ..
  have s: "fst (start_job (submit_response ?e) parameters) = Inr (JStr ''v1'')"
    by (simp add: start_job_def)
  from timeout_fails_the_job[OF p _ v b s, of None "\<lparr>store = Map.empty, trace = []\<rparr>"]
  show ?thesis by simp
qed

end
